theory Spec2Isabelle
  imports Complex_Main
begin

section \<open>JavaScript values and string helpers\<close>

text \<open>
  Values that travel through request bodies, \<^verbatim>\<open>JSON.parse\<close> results and upstream
  responses. Numbers are the finite ones a JSON body can carry. Strings are lists of
  characters; a \<^typ>\<open>char\<close> is a code unit from 0 to 255, so the model's strings are the
  strings over U+0000 to U+00FF.
\<close>

datatype jsval =
    JUndefined
  | JNull
  | JBool bool
  | JNum rat
  | JStr string
  | JArr "jsval list"
  | JObj "(string \<times> jsval) list"

text \<open>JavaScript truthiness, as used by \<^verbatim>\<open>!x\<close>, \<^verbatim>\<open>x || y\<close> and \<^verbatim>\<open>if (x)\<close>.\<close>

fun truthy :: "jsval \<Rightarrow> bool" where
  "truthy JUndefined = False"
| "truthy JNull = False"
| "truthy (JBool b) = b"
| "truthy (JNum n) = (n \<noteq> 0)"
| "truthy (JStr s) = (s \<noteq> [])"
| "truthy (JArr xs) = True"
| "truthy (JObj kvs) = True"

text \<open>\<^verbatim>\<open>a || b\<close> on values.\<close>

definition js_or :: "jsval \<Rightarrow> jsval \<Rightarrow> jsval" where
  "js_or a b = (if truthy a then a else b)"

text \<open>
  Property read \<^verbatim>\<open>v?.k\<close>: objects look the key up, every other value (including
  \<^verbatim>\<open>null\<close> and \<^verbatim>\<open>undefined\<close> under optional chaining) has no such property.
\<close>

fun getProp :: "jsval \<Rightarrow> string \<Rightarrow> jsval" where
  "getProp (JObj kvs) k = (case map_of kvs k of Some v \<Rightarrow> v | None \<Rightarrow> JUndefined)"
| "getProp v k = JUndefined"

text \<open>
  The white space and line terminators that \<^verbatim>\<open>String.prototype.trim\<close> removes. Up to
  U+00FF these are TAB, LF, VT, FF, CR, SPACE and the no-break space U+00A0; the others
  (U+1680, U+2000 to U+200A, U+2028, U+2029, U+202F, U+205F, U+3000, U+FEFF) lie beyond
  the model's characters.
\<close>

definition isWhiteSpace :: "char \<Rightarrow> bool" where
  "isWhiteSpace c = (c = CHR 0x09 \<or> c = CHR 0x0A \<or> c = CHR 0x0B \<or> c = CHR 0x0C
     \<or> c = CHR 0x0D \<or> c = CHR 0x20 \<or> c = CHR 0xA0)"

definition trim :: "string \<Rightarrow> string" where
  "trim s = rev (dropWhile isWhiteSpace (rev (dropWhile isWhiteSpace s)))"

text \<open>\<^verbatim>\<open>s.endsWith(t)\<close>.\<close>

definition endsWith :: "string \<Rightarrow> string \<Rightarrow> bool" where
  "endsWith s t = (length t \<le> length s \<and> drop (length s - length t) s = t)"

text \<open>\<^verbatim>\<open>s.split(",")\<close>: the pieces between commas; an empty string gives one empty piece.\<close>

fun split_comma :: "string \<Rightarrow> string list" where
  "split_comma [] = [[]]"
| "split_comma (c # cs) =
     (if c = CHR '','' then [] # split_comma cs
      else (case split_comma cs of [] \<Rightarrow> [[c]] | p # ps \<Rightarrow> (c # p) # ps))"

text \<open>
  \<^verbatim>\<open>s.toLowerCase()\<close>: the letters A to Z (U+0041 to U+005A) and the capital letters
  U+00C0 to U+00DE, the multiplication sign U+00D7 apart, move up by 32; every other
  character up to U+00FF stays.
\<close>

definition isUpperCase :: "char \<Rightarrow> bool" where
  "isUpperCase c =
     ((65::nat) \<le> of_char c \<and> of_char c \<le> (90::nat)
      \<or> (192::nat) \<le> of_char c \<and> of_char c \<le> (222::nat) \<and> of_char c \<noteq> (215::nat))"

definition toLowerCase :: "string \<Rightarrow> string" where
  "toLowerCase s = map (\<lambda>c. if isUpperCase c then char_of (of_char c + (32::nat)) else c) s"

text \<open>\<^verbatim>\<open>s.replace(/\/+$/, "")\<close>: the string without its trailing run of slashes.\<close>

definition stripTrailingSlashes :: "string \<Rightarrow> string" where
  "stripTrailingSlashes s = rev (dropWhile (\<lambda>c. c = CHR ''/'') (rev s))"

text \<open>
  Node's \<^verbatim>\<open>path.extname\<close> (POSIX flavour): trailing slashes are ignored, the last path
  component is taken, and the extension runs from its last dot to its end; a component
  without a dot, one whose only dot is its first character, and the component
  \<^verbatim>\<open>..\<close> have no extension.
\<close>

definition basename_part :: "string \<Rightarrow> string" where
  "basename_part p = rev (takeWhile (\<lambda>c. c \<noteq> CHR ''/'') (rev (stripTrailingSlashes p)))"

definition extname :: "string \<Rightarrow> string" where
  "extname p =
     (let b = basename_part p;
          ext = rev (takeWhile (\<lambda>c. c \<noteq> CHR ''.'') (rev b))
      in if CHR ''.'' \<notin> set b then []
         else if length ext + 1 = length b then []
         else if b = ''..'' then []
         else CHR ''.'' # ext)"

text \<open>Decimal rendering of a natural number, as a template literal renders an index.\<close>

fun digits_of :: "nat \<Rightarrow> nat \<Rightarrow> string" where
  "digits_of 0 n = []"
| "digits_of (Suc fuel) n =
     (if n < 10 then [char_of (48 + n)]
      else digits_of fuel (n div 10) @ [char_of (48 + n mod 10)])"

definition show_nat :: "nat \<Rightarrow> string" where
  "show_nat n = digits_of (Suc n) n"

section \<open>Dataset-id normalisation\<close>

text \<open>
  \<^verbatim>\<open>JSON.parse(text)\<close>: \<open>None\<close> is the thrown \<^verbatim>\<open>SyntaxError\<close>. A JSON text is
  white space, one value, white space, and a value starts with one of
  \<^verbatim>\<open>{ [ " - 0..9 t f n\<close>; a text with no such start is rejected. How the value itself
  is read is the platform's business: \<open>parse_value\<close> stands for it.
\<close>

definition json_ws :: "char \<Rightarrow> bool" where
  "json_ws c = (c = CHR 0x09 \<or> c = CHR 0x0A \<or> c = CHR 0x0D \<or> c = CHR 0x20)"

definition value_start :: "char \<Rightarrow> bool" where
  "value_start c = (c \<in> set ''{[-0123456789tfn'' \<or> c = CHR 0x22)"

definition JSON_parse :: "(string \<Rightarrow> jsval option) \<Rightarrow> string \<Rightarrow> jsval option" where
  "JSON_parse parse_value text =
     (case dropWhile json_ws text of
        [] \<Rightarrow> None
      | c # cs \<Rightarrow> if value_start c then parse_value (c # cs) else None)"

text \<open>\<^verbatim>\<open>parseSelectedDatasets(input)\<close>, chatController.js lines 12-30.\<close>

definition parseSelectedDatasets :: "(string \<Rightarrow> jsval option) \<Rightarrow> jsval \<Rightarrow> jsval list" where
  "parseSelectedDatasets parse_value input =
     (if \<not> truthy input then []
      else case input of
        JArr xs \<Rightarrow> xs
      | JStr s \<Rightarrow>
          (case JSON_parse parse_value s of
             Some (JArr xs) \<Rightarrow> xs
           | Some parsed \<Rightarrow> [parsed]
           | None \<Rightarrow>
               if CHR '','' \<in> set s
               then map JStr (filter (\<lambda>t. t \<noteq> []) (map trim (split_comma s)))
               else [JStr (trim s)])
      | _ \<Rightarrow> [input])"

section \<open>Documents, requests and responses\<close>

text \<open>
  Object ids are compared in the source through \<^verbatim>\<open>toString()\<close>, which is injective on
  them, so the model compares the ids themselves. A request field that is absent or the
  empty string (both falsy in the source's checks) is \<open>None\<close>; an id that is present
  is a well-formed object id.
\<close>

type_synonym objectId = nat

text \<open>
  Modelled from the spec: the team schema (models/teamSchema.js) is not among the sources.
  The record is the team as \<^verbatim>\<open>populate("team")\<close> delivers it to the handlers, with the
  two fields they read: the owning organisation, and the \<^verbatim>\<open>m.user._id\<close> of the member
  entries, every one of which resolves to a user.
\<close>

record team =
  team_organization :: objectId
  team_members :: "objectId list"

text \<open>
  Modelled from the spec: the project schema (models/projectSchema.js) is not among the
  sources. A project has its team (absent when the reference does not resolve), the ids
  of its chats, and its datasets, each with an id, a name and a retrieval location.
\<close>

record 'd dataset =
  ds_id :: 'd
  ds_name :: string
  ds_url :: string

record 'd project =
  proj_id :: objectId
  proj_team :: "team option"
  proj_chats :: "objectId list"
  proj_datasets :: "'d dataset list"

text \<open>An uploaded file as the upload middleware hands it over; the buffer is carried in
  its base64 rendering (\<open>None\<close> when the file has no buffer).\<close>

record upload =
  up_originalname :: "string option"
  up_mimetype :: "string option"
  up_size :: nat
  up_buffer :: "string option"

text \<open>A stored attachment, with the fields \<^verbatim>\<open>chatHandler\<close> gives it (lines 43-49).\<close>

record tempFile =
  tf_originalname :: "string option"
  tf_mimetype :: "string option"
  tf_size :: nat
  tf_headText :: string
  tf_bufferBase64 :: "string option"

text \<open>
  Modelled from the spec: the message and chat schemas (models/messageSchema.js,
  models/chatSchema.js) are not among the sources. A message has its owning chat, sender,
  optional text, selected dataset ids and attachments, kept as they are handed to
  \<^verbatim>\<open>Message.create\<close>; a chat has its owning project, a title and the ordered ids of its
  messages.
\<close>

record 'd message =
  msg_id :: objectId
  msg_chat :: objectId
  msg_sender :: string
  msg_content :: "string option"
  msg_selectedDatasets :: "'d list"
  msg_tempFiles :: "tempFile list"

record chat =
  chat_id :: objectId
  chat_project :: objectId
  chat_title :: string
  chat_messages :: "objectId list"

text \<open>
  Modelled from the spec: the storage layer is not among the sources. The store is the
  three collections, each in insertion order, and the next fresh object id.
\<close>

record 'd db =
  projects :: "'d project list"
  chats :: "chat list"
  messages :: "'d message list"
  nextId :: objectId

text \<open>The authenticated caller (\<^verbatim>\<open>req.user\<close>) and the two request bodies.\<close>

record user =
  userId :: objectId
  organization :: objectId
  role :: string

record chat_request =
  req_chatId :: "objectId option"
  req_projectId :: "objectId option"
  req_content :: "string option"
  req_selectedDatasets :: jsval
  req_files :: "upload list"
  req_user :: user

record reply_request =
  rr_chatId :: "objectId option"
  rr_projectId :: "objectId option"
  rr_content :: "string option"
  rr_user :: user

text \<open>What \<^verbatim>\<open>res.status(st).json(body)\<close> sends; \<^verbatim>\<open>res.json(body)\<close> alone sends 200.\<close>

datatype payload =
    ErrorBody string
  | SavedBody string objectId
  | AnalysisBody jsval

record response =
  res_status :: nat
  res_json :: payload

definition respond :: "nat \<Rightarrow> payload \<Rightarrow> response" where
  "respond st b = \<lparr>res_status = st, res_json = b\<rparr>"

section \<open>Store operations\<close>

text \<open>
  Modelled from the spec: the model classes behind \<^verbatim>\<open>Project\<close>, \<^verbatim>\<open>Chat\<close> and
  \<^verbatim>\<open>Message\<close> are not among the sources. \<^verbatim>\<open>findById\<close> and \<^verbatim>\<open>findOne\<close>, called
  without a sort, give the first matching document of the collection in its natural
  (insertion) order, or nothing.
\<close>

definition Project_findById :: "objectId \<Rightarrow> 'd db \<Rightarrow> 'd project option" where
  "Project_findById pid d = find (\<lambda>p. proj_id p = pid) (projects d)"

definition Chat_findById :: "objectId \<Rightarrow> 'd db \<Rightarrow> chat option" where
  "Chat_findById cid d = find (\<lambda>c. chat_id c = cid) (chats d)"

definition Chat_findOne_id_project :: "objectId \<Rightarrow> objectId \<Rightarrow> 'd db \<Rightarrow> chat option" where
  "Chat_findOne_id_project cid pid d =
     find (\<lambda>c. chat_id c = cid \<and> chat_project c = pid) (chats d)"

definition Chat_findOne_project :: "objectId \<Rightarrow> 'd db \<Rightarrow> chat option" where
  "Chat_findOne_project pid d = find (\<lambda>c. chat_project c = pid) (chats d)"

text \<open>
  Modelled from the spec: \<^verbatim>\<open>Chat.create({project, title, messages})\<close> of the absent
  chat model appends a new document under a fresh id.
\<close>

definition Chat_create :: "objectId \<Rightarrow> string \<Rightarrow> objectId list \<Rightarrow> 'd db \<Rightarrow> chat \<times> 'd db" where
  "Chat_create pid ttl ms d =
     (let c = \<lparr>chat_id = nextId d, chat_project = pid, chat_title = ttl, chat_messages = ms\<rparr>
      in (c, d\<lparr>chats := chats d @ [c], nextId := Suc (nextId d)\<rparr>))"

text \<open>
  Modelled from the spec: \<^verbatim>\<open>Message.create({chat, sender, content, selectedDatasets,
  tempFiles})\<close> of the absent message model appends the message to the log under a
  fresh id, with the fields as given.
\<close>

definition Message_create ::
  "objectId \<Rightarrow> string \<Rightarrow> string option \<Rightarrow> 'd list \<Rightarrow> tempFile list \<Rightarrow> 'd db \<Rightarrow> 'd message \<times> 'd db" where
  "Message_create cid sndr cont sel tfs d =
     (let m = \<lparr>msg_id = nextId d, msg_chat = cid, msg_sender = sndr, msg_content = cont,
                msg_selectedDatasets = sel, msg_tempFiles = tfs\<rparr>
      in (m, d\<lparr>messages := messages d @ [m], nextId := Suc (nextId d)\<rparr>))"

text \<open>
  Modelled from the spec: \<^verbatim>\<open>doc.save()\<close> of the absent models replaces the stored
  document of the same id.
\<close>

definition Chat_save :: "chat \<Rightarrow> 'd db \<Rightarrow> 'd db" where
  "Chat_save c d = d\<lparr>chats := map (\<lambda>x. if chat_id x = chat_id c then c else x) (chats d)\<rparr>"

definition Project_save :: "'d project \<Rightarrow> 'd db \<Rightarrow> 'd db" where
  "Project_save p d =
     d\<lparr>projects := map (\<lambda>x. if proj_id x = proj_id p then p else x) (projects d)\<rparr>"

text \<open>
  Modelled from the spec: \<^verbatim>\<open>populate("messages")\<close> of the absent chat model gives the
  chat's message documents in the order of its id list; an id without a document
  contributes nothing.
\<close>

definition populate_messages :: "chat \<Rightarrow> 'd db \<Rightarrow> 'd message list" where
  "populate_messages c d =
     List.map_filter (\<lambda>i. find (\<lambda>m. msg_id m = i) (messages d)) (chat_messages c)"

section \<open>Access control\<close>

text \<open>
  The block every handler repeats (chatController.js lines 73-85 and 152-164):
  \<open>None\<close> lets the request through, \<open>Some r\<close> is the response returned at once.
\<close>

definition accessControl :: "user \<Rightarrow> team \<Rightarrow> response option" where
  "accessControl u t =
     (if role u \<noteq> ''superadmin'' then
        (if team_organization t \<noteq> organization u
         then Some (respond 403 (ErrorBody ''Not in this organization.''))
         else (case find (\<lambda>m. m = userId u) (team_members t) of
                 None \<Rightarrow> Some (respond 403 (ErrorBody ''Not a member of this team.''))
               | Some memberEntry \<Rightarrow> None))
      else None)"

section \<open>Submitting a user message\<close>

text \<open>Step 1 of \<^verbatim>\<open>chatHandler\<close>: only CSV uploads are kept, with the buffer as base64
  (\<^verbatim>\<open>f.buffer?.toString("base64") || null\<close>).\<close>

definition isCsvUpload :: "upload \<Rightarrow> bool" where
  "isCsvUpload f =
     (toLowerCase (extname (case up_originalname f of None \<Rightarrow> [] | Some n \<Rightarrow> n)) = ''.csv''
      \<or> up_mimetype f = Some ''text/csv'')"

definition toTempFile :: "upload \<Rightarrow> tempFile" where
  "toTempFile f =
     \<lparr>tf_originalname = up_originalname f, tf_mimetype = up_mimetype f, tf_size = up_size f,
      tf_headText = [],
      tf_bufferBase64 = (case up_buffer f of None \<Rightarrow> None
                         | Some b \<Rightarrow> if b = [] then None else Some b)\<rparr>"

text \<open>\<^verbatim>\<open>content?.trim()\<close> as a condition, and \<^verbatim>\<open>content?.trim() || null\<close>.\<close>

definition hasText :: "string option \<Rightarrow> bool" where
  "hasText c = (case c of None \<Rightarrow> False | Some s \<Rightarrow> trim s \<noteq> [])"

definition trimmedOrNull :: "string option \<Rightarrow> string option" where
  "trimmedOrNull c = (case c of None \<Rightarrow> None | Some s \<Rightarrow> if trim s = [] then None else Some (trim s))"

text \<open>Step 5 of \<^verbatim>\<open>chatHandler\<close> (lines 87-103): get or create the chat.\<close>

definition resolveChat ::
  "objectId option \<Rightarrow> 'd project \<Rightarrow> 'd db \<Rightarrow> chat option \<times> 'd db" where
  "resolveChat chatId project d =
     (case chatId of
        Some cid \<Rightarrow> (Chat_findOne_id_project cid (proj_id project) d, d)
      | None \<Rightarrow>
          (case Chat_findOne_project (proj_id project) d of
             Some c \<Rightarrow> (Some c, d)
           | None \<Rightarrow>
               (let (c, d1) = Chat_create (proj_id project) ''New chat'' [] d;
                    d2 = Project_save (project\<lparr>proj_chats := proj_chats project @ [chat_id c]\<rparr>) d1
                in (Some c, d2))))"

text \<open>
  \<^verbatim>\<open>chatHandler(req, res)\<close>, chatController.js lines 32-127: the response and the
  store afterwards. The store operations of the model do not fail, so the handler's
  \<^verbatim>\<open>catch\<close> branch, which answers 500, is not reached here.
\<close>

definition chatHandler ::
  "(string \<Rightarrow> jsval option) \<Rightarrow> chat_request \<Rightarrow> jsval db \<Rightarrow> response \<times> jsval db" where
  "chatHandler parse_value req d =
     (let tempFiles = map toTempFile (filter isCsvUpload (req_files req));
          selectedDatasets = parseSelectedDatasets parse_value (req_selectedDatasets req);
          hasContent = hasText (req_content req);
          hasFiles = (length tempFiles > 0);
          hasDatasets = (length selectedDatasets > 0)
      in case req_projectId req of
           None \<Rightarrow>
             (respond 400 (ErrorBody
                ''projectId and at least one of content, selectedDatasets, or files are required.''), d)
         | Some projectId \<Rightarrow>
             if \<not> hasContent \<and> \<not> hasFiles \<and> \<not> hasDatasets then
               (respond 400 (ErrorBody
                  ''projectId and at least one of content, selectedDatasets, or files are required.''), d)
             else
               (case Project_findById projectId d of
                  None \<Rightarrow> (respond 404 (ErrorBody ''Project not found.''), d)
                | Some project \<Rightarrow>
                    (case proj_team project of
                       None \<Rightarrow> (respond 404 (ErrorBody ''Team not found.''), d)
                     | Some team \<Rightarrow>
                         (case accessControl (req_user req) team of
                            Some denied \<Rightarrow> (denied, d)
                          | None \<Rightarrow>
                              (case resolveChat (req_chatId req) project d of
                                 (None, d1) \<Rightarrow>
                                   (respond 404 (ErrorBody
                                      ''Chat not found or could not be created.''), d1)
                               | (Some chat, d1) \<Rightarrow>
                                   (let (userMsg, d2) =
                                          Message_create (chat_id chat) ''user''
                                            (trimmedOrNull (req_content req))
                                            selectedDatasets tempFiles d1;
                                        d3 = Chat_save
                                          (chat\<lparr>chat_messages := chat_messages chat @ [msg_id userMsg]\<rparr>) d2
                                    in (respond 200 (SavedBody ''User message saved.'' (chat_id chat)),
                                        d3)))))))"

section \<open>Requesting a reply\<close>

text \<open>
  A parsed URL: what precedes the path (scheme, host, port), the path, and what follows
  it. Assigning \<^verbatim>\<open>urlObj.pathname\<close> replaces the path.
\<close>

record url =
  url_base :: string
  url_pathname :: string
  url_rest :: string

record turn =
  turn_role :: string
  turn_content :: "string option"

record datasetRef =
  ref_name :: string
  ref_url :: string

record filePart =
  part_filename :: string
  part_contentType :: string
  part_data :: string

text \<open>
  The multipart request handed to \<^verbatim>\<open>axios.post\<close>: the target, the field
  \<^verbatim>\<open>user_text\<close>, the context object \<^verbatim>\<open>{messages, datasets}\<close> (sent serialised), and
  the parts of the field \<^verbatim>\<open>files\<close>.
\<close>

record outbound =
  out_url :: url
  out_user_text :: string
  out_messages :: "turn list"
  out_datasets :: "datasetRef list"
  out_files :: "filePart list"

text \<open>What \<^verbatim>\<open>axios.post\<close> throws: a transport failure has no response, a non-2xx
  answer carries the upstream status and body.\<close>

record upstream_response =
  up_status :: nat
  up_data :: jsval

record axios_error =
  err_message :: string
  err_code :: "string option"
  err_response :: "upstream_response option"

text \<open>
  What the handler takes from its platform: the environment variable, the URL parser
  (\<open>None\<close> is the thrown \<^verbatim>\<open>TypeError\<close>), \<^verbatim>\<open>String(x)\<close> on dataset ids,
  \<^verbatim>\<open>JSON.stringify\<close>, and the analysis engine behind \<^verbatim>\<open>axios.post\<close>
  (\<open>Inr\<close> is the body of a 2xx answer).
\<close>

record 'd platform =
  env_FASTAPI_URL :: "string option"
  URL_parse :: "string \<Rightarrow> url option"
  js_String :: "'d \<Rightarrow> string"
  JSON_stringify :: "jsval \<Rightarrow> string option"
  axios_post :: "outbound \<Rightarrow> axios_error + jsval"

text \<open>\<^verbatim>\<open>allDatasetIds\<close> (lines 171-177): a \<^verbatim>\<open>Set\<close> keeps each key once, in the order of
  first insertion.\<close>

definition Set_add :: "string list \<Rightarrow> string \<Rightarrow> string list" where
  "Set_add s x = (if x \<in> set s then s else s @ [x])"

definition allDatasetIds :: "('d \<Rightarrow> string) \<Rightarrow> 'd message list \<Rightarrow> string list" where
  "allDatasetIds str allMessages =
     foldl (\<lambda>acc msg.
              if length (msg_selectedDatasets msg) > 0
              then foldl (\<lambda>a dsId. Set_add a (str dsId)) acc (msg_selectedDatasets msg)
              else acc)
           [] allMessages"

text \<open>\<^verbatim>\<open>xs.slice(start)\<close> for any integer start.\<close>

definition slice_from :: "int \<Rightarrow> 'a list \<Rightarrow> 'a list" where
  "slice_from start xs =
     (let n = int (length xs);
          k = (if start < 0 then max (n + start) 0 else min start n)
      in drop (nat k) xs)"

text \<open>\<^verbatim>\<open>recentHistory\<close> (lines 177-181).\<close>

definition recentHistory :: "'d message list \<Rightarrow> turn list" where
  "recentHistory allMessages =
     map (\<lambda>msg. \<lparr>turn_role = (if msg_sender msg = ''user'' then ''user'' else ''assistant''),
                  turn_content = msg_content msg\<rparr>)
         (slice_from (- 5) allMessages)"

text \<open>\<^verbatim>\<open>allUploadedFiles\<close> (lines 184-194).\<close>

definition retained :: "tempFile \<Rightarrow> bool" where
  "retained f = (case tf_bufferBase64 f of None \<Rightarrow> False | Some b \<Rightarrow> b \<noteq> [])"

definition allUploadedFiles :: "'d message list \<Rightarrow> tempFile list" where
  "allUploadedFiles allMessages =
     concat (map (\<lambda>msg. if msg_sender msg = ''user'' then filter retained (msg_tempFiles msg)
                         else [])
                 allMessages)"

text \<open>\<^verbatim>\<open>datasetsContext\<close> (lines 196-210): the project's datasets whose id was selected,
  then one entry per uploaded file.\<close>

definition nonEmpty :: "string option \<Rightarrow> string option" where
  "nonEmpty s = (case s of None \<Rightarrow> None | Some x \<Rightarrow> if x = [] then None else Some x)"

definition uploadRef :: "nat \<Rightarrow> tempFile \<Rightarrow> datasetRef" where
  "uploadRef index file =
     \<lparr>ref_name = (case nonEmpty (tf_originalname file) of
                     Some n \<Rightarrow> n | None \<Rightarrow> ''Upload '' @ show_nat (index + 1)),
      ref_url = ''Current Upload''\<rparr>"

definition datasetsContext ::
  "('d \<Rightarrow> string) \<Rightarrow> 'd project \<Rightarrow> 'd message list \<Rightarrow> datasetRef list" where
  "datasetsContext str project allMessages =
     map (\<lambda>d. \<lparr>ref_name = ds_name d, ref_url = ds_url d\<rparr>)
         (filter (\<lambda>d. str (ds_id d) \<in> set (allDatasetIds str allMessages)) (proj_datasets project))
     @ map (\<lambda>(index, file). uploadRef index file)
           (enumerate 0 (allUploadedFiles allMessages))"

text \<open>The file parts of the form (lines 228-234).\<close>

definition toFilePart :: "tempFile \<Rightarrow> filePart" where
  "toFilePart file =
     \<lparr>part_filename = (case nonEmpty (tf_originalname file) of
                         Some n \<Rightarrow> n | None \<Rightarrow> ''dataset.csv''),
      part_contentType = ''text/csv'',
      part_data = (case tf_bufferBase64 file of Some b \<Rightarrow> b | None \<Rightarrow> [])\<rparr>"

definition fileParts :: "'d message list \<Rightarrow> filePart list" where
  "fileParts allMessages = map toFilePart (allUploadedFiles allMessages)"

text \<open>The target (lines 236-248): \<^verbatim>\<open>new URL(FASTAPI_URL)\<close>, retried with
  \<^verbatim>\<open>http://\<close> in front, then the path rewritten unless it ends with
  \<^verbatim>\<open>/analyze\<close> already.\<close>

definition configuredURL :: "string option \<Rightarrow> string" where
  "configuredURL env = (case nonEmpty env of Some u \<Rightarrow> u | None \<Rightarrow> ''http://localhost:8000'')"

definition newURL :: "(string \<Rightarrow> url option) \<Rightarrow> string \<Rightarrow> url option" where
  "newURL parse raw =
     (case parse raw of Some u \<Rightarrow> Some u | None \<Rightarrow> parse (''http://'' @ raw))"

definition analyzePathname :: "string \<Rightarrow> string" where
  "analyzePathname pathname =
     (if \<not> endsWith pathname ''/analyze''
      then stripTrailingSlashes pathname @ ''/analyze''
      else pathname)"

text \<open>
  \<^verbatim>\<open>aiReplyHandler\<close> up to the call of \<^verbatim>\<open>axios.post\<close> (lines 128-248): an early
  response, or the loaded chat with the request about to be sent.
\<close>

definition prepareReply ::
  "'d platform \<Rightarrow> reply_request \<Rightarrow> 'd db \<Rightarrow> response + (chat \<times> outbound)" where
  "prepareReply pf req d =
     (case (rr_projectId req, rr_chatId req) of
        (Some projectId, Some chatId) \<Rightarrow>
          if \<not> hasText (rr_content req) then
            Inl (respond 400 (ErrorBody ''projectId, chatId, and content required.''))
          else
            (case Project_findById projectId d of
               None \<Rightarrow> Inl (respond 404 (ErrorBody ''Project not found.''))
             | Some project \<Rightarrow>
                 (case Chat_findById chatId d of
                    None \<Rightarrow> Inl (respond 404 (ErrorBody ''Chat not found.''))
                  | Some chat \<Rightarrow>
                      (case proj_team project of
                         None \<Rightarrow> Inl (respond 404 (ErrorBody ''Team not found.''))
                       | Some team \<Rightarrow>
                           (case accessControl (rr_user req) team of
                              Some denied \<Rightarrow> Inl denied
                            | None \<Rightarrow>
                                (let allMessages = populate_messages chat d in
                                 case newURL (URL_parse pf) (configuredURL (env_FASTAPI_URL pf)) of
                                   None \<Rightarrow> Inl (respond 500 (ErrorBody ''Internal server error.''))
                                 | Some urlObj \<Rightarrow>
                                     Inr (chat,
                                       \<lparr>out_url = urlObj\<lparr>url_pathname :=
                                                    analyzePathname (url_pathname urlObj)\<rparr>,
                                        out_user_text =
                                          trim (case rr_content req of Some c \<Rightarrow> c | None \<Rightarrow> []),
                                        out_messages = recentHistory allMessages,
                                        out_datasets =
                                          datasetsContext (js_String pf) project allMessages,
                                        out_files = fileParts allMessages\<rparr>))))))
      | _ \<Rightarrow> Inl (respond 400 (ErrorBody ''projectId, chatId, and content required.'')))"

text \<open>
  \<^verbatim>\<open>aiReplyHandler(req, res)\<close>, chatController.js lines 128-293. Whatever
  \<^verbatim>\<open>new URL\<close> or \<^verbatim>\<open>axios.post\<close> throws lands in the handler's \<^verbatim>\<open>catch\<close>, which
  answers 500 with a fixed text.
\<close>

definition aiReplyHandler ::
  "'d platform \<Rightarrow> reply_request \<Rightarrow> 'd db \<Rightarrow> response \<times> 'd db" where
  "aiReplyHandler pf req d =
     (case prepareReply pf req d of
        Inl early \<Rightarrow> (early, d)
      | Inr (chat, form) \<Rightarrow>
          (case axios_post pf form of
             Inl err \<Rightarrow> (respond 500 (ErrorBody ''Internal server error.''), d)
           | Inr analysis \<Rightarrow>
               (let (botMsg, d1) =
                      Message_create (chat_id chat) ''chatbot'' (JSON_stringify pf analysis) [] [] d;
                    d2 = Chat_save (chat\<lparr>chat_messages := chat_messages chat @ [msg_id botMsg]\<rparr>) d1
                in (respond 200 (AnalysisBody analysis), d2))))"

section \<open>The stand-alone analysis client\<close>

text \<open>The request \<^verbatim>\<open>callFastAPIAnalyze\<close> sends, and the \<^verbatim>\<open>Error\<close> it throws.\<close>

record analyze_call =
  ac_url :: url
  ac_user_query :: string
  ac_file :: filePart
  ac_session :: "string option"

record js_error =
  e_message :: string
  e_status :: "nat option"
  e_code :: "string option"

text \<open>Lines 28-29 of fastApiClient.js.\<close>

definition normalizedPath :: "string \<Rightarrow> string" where
  "normalizedPath pathname = stripTrailingSlashes pathname @ ''/analyze''"

text \<open>Lines 54-76 of fastApiClient.js: the error built from what \<^verbatim>\<open>axios.post\<close> threw;
  \<open>str\<close> is \<^verbatim>\<open>String(x)\<close>, applied by \<^verbatim>\<open>new Error(clientMsg)\<close>.\<close>

definition clientMsg :: "axios_error \<Rightarrow> jsval" where
  "clientMsg err =
     (let data = (case err_response err of None \<Rightarrow> JUndefined | Some r \<Rightarrow> up_data r)
      in js_or (getProp data ''detail'')
           (js_or (getProp data ''error'')
              (js_or (JStr (err_message err)) (JStr ''Error calling FastAPI''))))"

definition translateError :: "(jsval \<Rightarrow> string) \<Rightarrow> axios_error \<Rightarrow> js_error" where
  "translateError str err =
     \<lparr>e_message = str (clientMsg err),
      e_status = map_option up_status (err_response err),
      e_code = err_code err\<rparr>"

text \<open>
  \<^verbatim>\<open>callFastAPIAnalyze(userQuery, fileBuffer, fileName, sessionId)\<close>, fastApiClient.js
  lines 13-77. \<open>fileBuffer\<close> is \<open>None\<close> when the argument is neither a buffer nor a
  readable stream. \<open>Inl\<close> is the thrown error.
\<close>

definition callFastAPIAnalyze ::
  "string option \<Rightarrow> (string \<Rightarrow> url option) \<Rightarrow> (jsval \<Rightarrow> string)
   \<Rightarrow> (analyze_call \<Rightarrow> axios_error + jsval)
   \<Rightarrow> string \<Rightarrow> string option \<Rightarrow> string option \<Rightarrow> string option \<Rightarrow> js_error + jsval" where
  "callFastAPIAnalyze env parse str post userQuery fileBuffer fileName sessionId =
     (let raw = configuredURL env in
      case newURL parse raw of
        None \<Rightarrow> Inl \<lparr>e_message = ''Invalid FASTAPI_URL: '' @ raw, e_status = None, e_code = None\<rparr>
      | Some urlObj \<Rightarrow>
          (case fileBuffer of
             None \<Rightarrow> Inl \<lparr>e_message = ''fileBuffer must be a Buffer or readable stream'',
                          e_status = None, e_code = None\<rparr>
           | Some buf \<Rightarrow>
               (let fname = (case nonEmpty fileName of Some n \<Rightarrow> n | None \<Rightarrow> ''dataset.csv'') in
                if \<not> endsWith (toLowerCase fname) ''.csv'' then
                  Inl \<lparr>e_message = ''fileName must have a .csv extension'',
                       e_status = None, e_code = None\<rparr>
                else
                  (case post \<lparr>ac_url = urlObj\<lparr>url_pathname := normalizedPath (url_pathname urlObj)\<rparr>,
                              ac_user_query = userQuery,
                              ac_file = \<lparr>part_filename = fname, part_contentType = ''text/csv'',
                                         part_data = buf\<rparr>,
                              ac_session = nonEmpty sessionId\<rparr> of
                     Inl err \<Rightarrow> Inl (translateError str err)
                   | Inr data \<Rightarrow> Inr data))))"

section \<open>Sample data\<close>

text \<open>
  A small world for the examples: organisation 7 with a team of users 1 and 2; project 10
  with the datasets B, A and C (in that order) and two chats. Chat 20, the older one, has
  seven messages in which A, B and A again are selected and files are uploaded in two
  different user turns. Chat 21, associated with the project after chat 20, has three
  user turns selecting A, then B, then A, and no upload. Dataset ids are strings, on
  which \<^verbatim>\<open>String(x)\<close> is the identity.
\<close>

definition sample_team :: team where
  "sample_team = \<lparr>team_organization = 7, team_members = [1, 2]\<rparr>"

definition sample_project :: "jsval project" where
  "sample_project =
     \<lparr>proj_id = 10, proj_team = Some sample_team, proj_chats = [20, 21],
      proj_datasets =
        [\<lparr>ds_id = JStr ''B'', ds_name = ''costs'', ds_url = ''http://store/costs.csv''\<rparr>,
         \<lparr>ds_id = JStr ''A'', ds_name = ''sales'', ds_url = ''http://store/sales.csv''\<rparr>,
         \<lparr>ds_id = JStr ''C'', ds_name = ''stock'', ds_url = ''http://store/stock.csv''\<rparr>]\<rparr>"

definition sample_file :: "string \<Rightarrow> string option \<Rightarrow> tempFile" where
  "sample_file name buf =
     \<lparr>tf_originalname = Some name, tf_mimetype = Some ''text/csv'', tf_size = 12,
      tf_headText = [], tf_bufferBase64 = buf\<rparr>"

definition sample_message ::
  "objectId \<Rightarrow> objectId \<Rightarrow> string \<Rightarrow> string \<Rightarrow> jsval list \<Rightarrow> tempFile list \<Rightarrow> jsval message" where
  "sample_message i c sndr txt sel tfs =
     \<lparr>msg_id = i, msg_chat = c, msg_sender = sndr, msg_content = Some txt,
      msg_selectedDatasets = sel, msg_tempFiles = tfs\<rparr>"

definition sample_messages :: "jsval message list" where
  "sample_messages =
     [sample_message 30 20 ''user'' ''show sales'' [JStr ''A'']
        [sample_file ''jan.csv'' (Some ''YSxiCjEsMgo='')],
      sample_message 31 20 ''chatbot'' ''{}'' [] [],
      sample_message 32 20 ''user'' ''and costs'' [JStr ''B''] [],
      sample_message 33 20 ''chatbot'' ''{}'' [] [],
      sample_message 34 20 ''user'' ''compare them'' [JStr ''A''] [],
      sample_message 35 20 ''chatbot'' ''{}'' [] [],
      sample_message 36 20 ''user'' ''add february'' []
        [sample_file ''feb.csv'' (Some ''YSxiCjMsNAo=''), sample_file ''old.csv'' None]]"

definition plain_messages :: "jsval message list" where
  "plain_messages =
     [sample_message 40 21 ''user'' ''show sales'' [JStr ''A''] [],
      sample_message 41 21 ''user'' ''and costs'' [JStr ''B''] [],
      sample_message 42 21 ''user'' ''compare them'' [JStr ''A''] []]"

definition sample_chat :: chat where
  "sample_chat =
     \<lparr>chat_id = 20, chat_project = 10, chat_title = ''New chat'',
      chat_messages = [30, 31, 32, 33, 34, 35, 36]\<rparr>"

definition plain_chat :: chat where
  "plain_chat =
     \<lparr>chat_id = 21, chat_project = 10, chat_title = ''Quarterly'', chat_messages = [40, 41, 42]\<rparr>"

definition sample_db :: "jsval db" where
  "sample_db =
     \<lparr>projects = [sample_project], chats = [sample_chat, plain_chat],
      messages = sample_messages @ plain_messages, nextId = 43\<rparr>"

text \<open>The same project before its first chat.\<close>

definition fresh_project :: "jsval project" where
  "fresh_project = sample_project\<lparr>proj_chats := []\<rparr>"

definition fresh_db :: "jsval db" where
  "fresh_db = \<lparr>projects = [fresh_project], chats = [], messages = [], nextId = 20\<rparr>"

text \<open>Callers: a team member, a user of the organisation outside the team, a user of
  another organisation, and a superadmin who belongs to neither.\<close>

definition member_user :: user where
  "member_user = \<lparr>userId = 1, organization = 7, role = ''user''\<rparr>"

definition outsider_user :: user where
  "outsider_user = \<lparr>userId = 3, organization = 7, role = ''user''\<rparr>"

definition foreign_user :: user where
  "foreign_user = \<lparr>userId = 4, organization = 8, role = ''user''\<rparr>"

definition super_user :: user where
  "super_user = \<lparr>userId = 5, organization = 8, role = ''superadmin''\<rparr>"

definition sample_reply_request :: "objectId \<Rightarrow> user \<Rightarrow> reply_request" where
  "sample_reply_request c u =
     \<lparr>rr_chatId = Some c, rr_projectId = Some 10, rr_content = Some '' compare them '',
      rr_user = u\<rparr>"

definition sample_chat_request :: "user \<Rightarrow> chat_request" where
  "sample_chat_request u =
     \<lparr>req_chatId = None, req_projectId = Some 10, req_content = Some ''and stock? '',
      req_selectedDatasets = JStr ''C'', req_files = [], req_user = u\<rparr>"

definition blank_selection_request :: chat_request where
  "blank_selection_request =
     \<lparr>req_chatId = None, req_projectId = Some 10, req_content = None,
      req_selectedDatasets = JStr [CHR 0x20, CHR 0xA0, CHR 0x09], req_files = [],
      req_user = member_user\<rparr>"

text \<open>
  A sample platform: a reader of JSON values that knows the literals and plain strings,
  URLs of the shape \<^verbatim>\<open>http://host/path\<close>, a plain rendering of values as the
  serialiser, and an engine that either answers or refuses with 422.
\<close>

definition sample_parse_value :: "string \<Rightarrow> jsval option" where
  "sample_parse_value s =
     (let t = trim s in
      if t = ''null'' then Some JNull
      else if t = ''true'' then Some (JBool True)
      else if t = ''false'' then Some (JBool False)
      else if 2 \<le> length t \<and> hd t = CHR 0x22 \<and> last t = CHR 0x22
              \<and> CHR 0x22 \<notin> set (butlast (tl t)) \<and> CHR 0x5C \<notin> set t
           then Some (JStr (butlast (tl t)))
      else None)"

definition sample_URL_parse :: "string \<Rightarrow> url option" where
  "sample_URL_parse s =
     (let r = drop 7 s;
          host = takeWhile (\<lambda>c. c \<noteq> CHR ''/'') r;
          path = dropWhile (\<lambda>c. c \<noteq> CHR ''/'') r
      in if take 7 s = ''http://'' \<and> host \<noteq> []
         then Some \<lparr>url_base = ''http://'' @ host,
                    url_pathname = (if path = [] then ''/'' else path), url_rest = []\<rparr>
         else None)"

fun sample_render :: "jsval \<Rightarrow> string" where
  "sample_render JUndefined = ''undefined''"
| "sample_render JNull = ''null''"
| "sample_render (JBool b) = (if b then ''true'' else ''false'')"
| "sample_render (JNum n) =
     (case quotient_of n of
        (p, q) \<Rightarrow> (if p < 0 then ''-'' else []) @ show_nat (nat \<bar>p\<bar>)
                  @ (if q = 1 then [] else ''/'' @ show_nat (nat q)))"
| "sample_render (JStr s) = [CHR 0x22] @ s @ [CHR 0x22]"
| "sample_render (JArr xs) = ''['' @ concat (map (\<lambda>x. sample_render x @ '','') xs) @ '']''"
| "sample_render (JObj kvs) =
     ''{'' @ concat (map (\<lambda>(k, v). k @ '':'' @ sample_render v @ '','') kvs) @ ''}''"

definition sample_stringify :: "jsval \<Rightarrow> string option" where
  "sample_stringify v = (if v = JUndefined then None else Some (sample_render v))"

definition sample_String :: "jsval \<Rightarrow> string" where
  "sample_String v = (case v of JStr s \<Rightarrow> s | _ \<Rightarrow> sample_render v)"

definition sample_analysis :: jsval where
  "sample_analysis = JObj [(''insights'', JStr ''sales exceed costs'')]"

definition refusal_422 :: axios_error where
  "refusal_422 =
     \<lparr>err_message = ''Request failed with status code 422'', err_code = Some ''ERR_BAD_REQUEST'',
      err_response = Some \<lparr>up_status = 422,
                            up_data = JObj [(''detail'', JStr ''unknown column'')]\<rparr>\<rparr>"

definition sample_platform ::
  "string option \<Rightarrow> (outbound \<Rightarrow> axios_error + jsval) \<Rightarrow> jsval platform" where
  "sample_platform env engine =
     \<lparr>env_FASTAPI_URL = env, URL_parse = sample_URL_parse, js_String = sample_String,
      JSON_stringify = sample_stringify, axios_post = engine\<rparr>"

definition answering_platform :: "jsval platform" where
  "answering_platform =
     sample_platform (Some ''http://engine:8000/api/'') (\<lambda>form. Inr sample_analysis)"

definition refusing_platform :: "jsval platform" where
  "refusing_platform =
     sample_platform (Some ''http://engine:8000/api/'') (\<lambda>form. Inl refusal_422)"

text \<open>The requests the two sample chats give rise to for a team member.\<close>

definition sample_form :: outbound where
  "sample_form =
     \<lparr>out_url = \<lparr>url_base = ''http://engine:8000'', url_pathname = ''/api/analyze'', url_rest = []\<rparr>,
      out_user_text = ''compare them'',
      out_messages =
        [\<lparr>turn_role = ''user'', turn_content = Some ''and costs''\<rparr>,
         \<lparr>turn_role = ''assistant'', turn_content = Some ''{}''\<rparr>,
         \<lparr>turn_role = ''user'', turn_content = Some ''compare them''\<rparr>,
         \<lparr>turn_role = ''assistant'', turn_content = Some ''{}''\<rparr>,
         \<lparr>turn_role = ''user'', turn_content = Some ''add february''\<rparr>],
      out_datasets =
        [\<lparr>ref_name = ''costs'', ref_url = ''http://store/costs.csv''\<rparr>,
         \<lparr>ref_name = ''sales'', ref_url = ''http://store/sales.csv''\<rparr>,
         \<lparr>ref_name = ''jan.csv'', ref_url = ''Current Upload''\<rparr>,
         \<lparr>ref_name = ''feb.csv'', ref_url = ''Current Upload''\<rparr>],
      out_files =
        [\<lparr>part_filename = ''jan.csv'', part_contentType = ''text/csv'', part_data = ''YSxiCjEsMgo=''\<rparr>,
         \<lparr>part_filename = ''feb.csv'', part_contentType = ''text/csv'', part_data = ''YSxiCjMsNAo=''\<rparr>]\<rparr>"


section \<open>Basic facts\<close>

lemma find_SomeD: "find P xs = Some x \<Longrightarrow> P x \<and> x \<in> set xs"
  by (induction xs) (auto split: if_splits)

lemma find_None_iff': "find P xs = None \<longleftrightarrow> (\<forall>x\<in>set xs. \<not> P x)"
  by (induction xs) auto



text \<open>Conversely, a request that passes every check reaches the call.\<close>

lemma prepareReply_InrI:
  assumes "rr_projectId req = Some projectId" and "rr_chatId req = Some chatId"
      and "hasText (rr_content req)"
      and "Project_findById projectId d = Some project"
      and "Chat_findById chatId d = Some chat"
      and "proj_team project = Some team"
      and "accessControl (rr_user req) team = None"
      and "newURL (URL_parse pf) (configuredURL (env_FASTAPI_URL pf)) = Some urlObj"
  shows "prepareReply pf req d =
           Inr (chat,
             \<lparr>out_url = urlObj\<lparr>url_pathname := analyzePathname (url_pathname urlObj)\<rparr>,
              out_user_text = trim (case rr_content req of Some c \<Rightarrow> c | None \<Rightarrow> []),
              out_messages = recentHistory (populate_messages chat d),
              out_datasets = datasetsContext (js_String pf) project (populate_messages chat d),
              out_files = fileParts (populate_messages chat d)\<rparr>)"
  using assms by (simp add: prepareReply_def Let_def)

subsection \<open>The sample world, evaluated\<close>

lemma sample_populate: "populate_messages sample_chat sample_db = sample_messages"
  by code_simp

lemma plain_populate: "populate_messages plain_chat sample_db = plain_messages"
  by code_simp



lemma sample_prepareReply_refusing:
  "prepareReply refusing_platform (sample_reply_request 20 member_user) sample_db
     = Inr (sample_chat, sample_form)"
  by code_simp

lemma refusing_post: "axios_post refusing_platform form = Inl refusal_422"
  by (simp add: refusing_platform_def sample_platform_def)

lemma answering_post: "axios_post answering_platform form = Inr sample_analysis"
  by (simp add: answering_platform_def sample_platform_def)

section \<open>The recent-turns window\<close>





section \<open>A failed dispatch\<close>

text \<open>
  Claim C5. If the reply operation reaches the engine and the call fails (a transport
  failure or a non-2xx answer), the handler answers 500 and returns the store exactly as
  it found it: every message saved before, the user's among them, is still in the chat's
  list, unchanged, and no assistant message has been appended. Nothing is rolled back and
  nothing new is persisted.
\<close>

theorem failed_dispatch_keeps_store:
  assumes "prepareReply pf req d = Inr (chat, form)"
      and "axios_post pf form = Inl err"
  shows "aiReplyHandler pf req d = (respond 500 (ErrorBody ''Internal server error.''), d)"
  using assms by (simp add: aiReplyHandler_def)

text \<open>On the sample chat, whose last message is the user's, with the refusing engine.\<close>

theorem failed_dispatch_keeps_store_witness:
  "aiReplyHandler refusing_platform (sample_reply_request 20 member_user) sample_db
     = (respond 500 (ErrorBody ''Internal server error.''), sample_db)
   \<and> populate_messages sample_chat sample_db = sample_messages
   \<and> msg_sender (last sample_messages) = ''user''"
  using failed_dispatch_keeps_store [OF sample_prepareReply_refusing refusing_post]
  by (simp add: sample_populate sample_messages_def sample_message_def)

section \<open>Submitting: the paths through the handler\<close>

lemma messages_Chat_save [simp]: "messages (Chat_save c d) = messages d"
  by (simp add: Chat_save_def)

lemma messages_Project_save [simp]: "messages (Project_save p d) = messages d"
  by (simp add: Project_save_def)

lemma resolveChat_messages: "messages (snd (resolveChat cid project d)) = messages d"
  by (auto simp: resolveChat_def Chat_create_def Let_def split: option.splits)

lemma accessControl_SomeD:
  "accessControl u t = Some r \<Longrightarrow>
     role u \<noteq> ''superadmin''
     \<and> (r = respond 403 (ErrorBody ''Not in this organization.'')
        \<or> r = respond 403 (ErrorBody ''Not a member of this team.''))"
  by (auto simp: accessControl_def split: if_splits option.splits)

lemma accessControl_None_iff:
  "accessControl u t = None \<longleftrightarrow>
     role u = ''superadmin'' \<or> (team_organization t = organization u \<and> userId u \<in> set (team_members t))"
  by (auto simp: accessControl_def find_None_iff' split: option.splits dest: find_SomeD)

lemma accessControl_wrong_org:
  "role u \<noteq> ''superadmin'' \<Longrightarrow> team_organization t \<noteq> organization u \<Longrightarrow>
   accessControl u t = Some (respond 403 (ErrorBody ''Not in this organization.''))"
  by (simp add: accessControl_def)

lemma accessControl_not_member:
  "role u \<noteq> ''superadmin'' \<Longrightarrow> team_organization t = organization u \<Longrightarrow>
   userId u \<notin> set (team_members t) \<Longrightarrow>
   accessControl u t = Some (respond 403 (ErrorBody ''Not a member of this team.''))"
  by (auto simp: accessControl_def find_None_iff' split: option.splits dest: find_SomeD)

lemma chatHandler_saved:
  assumes "req_projectId req = Some pid"
      and "hasText (req_content req) \<or> filter isCsvUpload (req_files req) \<noteq> []
           \<or> parseSelectedDatasets pv (req_selectedDatasets req) \<noteq> []"
      and "Project_findById pid d = Some project"
      and "proj_team project = Some team"
      and "accessControl (req_user req) team = None"
      and "resolveChat (req_chatId req) project d = (Some chat, d1)"
  shows "chatHandler pv req d =
           (respond 200 (SavedBody ''User message saved.'' (chat_id chat)),
            Chat_save (chat\<lparr>chat_messages := chat_messages chat @ [nextId d1]\<rparr>)
              (d1\<lparr>messages := messages d1 @
                     [\<lparr>msg_id = nextId d1, msg_chat = chat_id chat, msg_sender = ''user'',
                       msg_content = trimmedOrNull (req_content req),
                       msg_selectedDatasets = parseSelectedDatasets pv (req_selectedDatasets req),
                       msg_tempFiles = map toTempFile (filter isCsvUpload (req_files req))\<rparr>],
                   nextId := Suc (nextId d1)\<rparr>))"
  using assms by (auto simp: chatHandler_def Message_create_def Let_def)

lemma chatHandler_cases:
  obtains
    (rejected) st msg where "chatHandler pv req d = (respond st (ErrorBody msg), d)"
      "st = 400 \<or> st = 404 \<or> st = 403"
  | (saved) pid project team chat d1 where
      "req_projectId req = Some pid"
      "hasText (req_content req) \<or> filter isCsvUpload (req_files req) \<noteq> []
           \<or> parseSelectedDatasets pv (req_selectedDatasets req) \<noteq> []"
      "Project_findById pid d = Some project"
      "proj_team project = Some team"
      "accessControl (req_user req) team = None"
      "resolveChat (req_chatId req) project d = (Some chat, d1)"
proof (cases "req_projectId req")
  case None
  then show ?thesis by (intro rejected [of 400]) (auto simp: chatHandler_def Let_def)
next
  case (Some pid)
  note pid = this
  show ?thesis
  proof (cases "hasText (req_content req) \<or> filter isCsvUpload (req_files req) \<noteq> []
           \<or> parseSelectedDatasets pv (req_selectedDatasets req) \<noteq> []")
    case False
    with pid show ?thesis by (intro rejected [of 400]) (auto simp: chatHandler_def Let_def)
  next
    case True
    note valid = this
    show ?thesis
    proof (cases "Project_findById pid d")
      case None
      with pid valid show ?thesis by (intro rejected [of 404]) (auto simp: chatHandler_def Let_def)
    next
      case (Some project)
      note project = this
      show ?thesis
      proof (cases "proj_team project")
        case None
        with pid valid project show ?thesis
          by (intro rejected [of 404]) (auto simp: chatHandler_def Let_def)
      next
        case (Some team)
        note team = this
        show ?thesis
        proof (cases "accessControl (req_user req) team")
          case (Some denied)
          from accessControl_SomeD [OF Some] obtain msg where "denied = respond 403 (ErrorBody msg)"
            by blast
          with Some pid valid project team show ?thesis
            by (intro rejected [of 403 msg]) (auto simp: chatHandler_def Let_def)
        next
          case None
          note allowed = this
          obtain r d1 where rc: "resolveChat (req_chatId req) project d = (r, d1)"
            by (cases "resolveChat (req_chatId req) project d")
          show ?thesis
          proof (cases r)
            case None
            with rc have "d1 = d"
              by (auto simp: resolveChat_def Chat_create_def Let_def split: option.splits)
            with None rc pid valid project team allowed show ?thesis
              by (intro rejected [of 404]) (auto simp: chatHandler_def Let_def)
          next
            case (Some chat)
            with rc pid valid project team allowed show ?thesis by (intro saved) auto
          qed
        qed
      qed
    qed
  qed
qed

section \<open>Access control\<close>

lemma superadmin_allowed: "role u = ''superadmin'' \<Longrightarrow> accessControl u t = None"
  by (simp add: accessControl_def)

lemma chatHandler_superadmin:
  assumes "role (req_user req) = ''superadmin''"
  shows "res_status (fst (chatHandler pv req d)) \<noteq> 403"
proof -
  have "\<And>t. accessControl (req_user req) t = None"
    using assms by (simp add: superadmin_allowed)
  then show ?thesis
    by (auto simp: chatHandler_def Let_def respond_def Message_create_def
             split: option.splits prod.splits)
qed

lemma aiReplyHandler_superadmin:
  assumes "role (rr_user req) = ''superadmin''"
  shows "res_status (fst (aiReplyHandler pf req d)) \<noteq> 403"
proof -
  have "\<And>t. accessControl (rr_user req) t = None"
    using assms by (simp add: superadmin_allowed)
  then show ?thesis
    by (auto simp: aiReplyHandler_def prepareReply_def Let_def respond_def Message_create_def
             split: option.splits prod.splits sum.splits)
qed

lemma chatHandler_denied:
  assumes "req_projectId req = Some pid"
      and "Project_findById pid d = Some project"
      and "proj_team project = Some team"
      and "accessControl (req_user req) team = Some denied"
  shows "snd (chatHandler pv req d) = d"
    and "hasText (req_content req) \<or> filter isCsvUpload (req_files req) \<noteq> []
           \<or> parseSelectedDatasets pv (req_selectedDatasets req) \<noteq> []
         \<Longrightarrow> fst (chatHandler pv req d) = denied"
  using assms by (auto simp: chatHandler_def Let_def)

lemma aiReplyHandler_denied:
  assumes "rr_projectId req = Some pid"
      and "Project_findById pid d = Some project"
      and "proj_team project = Some team"
      and "accessControl (rr_user req) team = Some denied"
  shows "snd (aiReplyHandler pf req d) = d"
    and "hasText (rr_content req) \<Longrightarrow> rr_chatId req = Some cid \<Longrightarrow> Chat_findById cid d = Some chat
         \<Longrightarrow> fst (aiReplyHandler pf req d) = denied"
  using assms by (auto simp: aiReplyHandler_def prepareReply_def Let_def split: option.splits)

lemma sample_project_found: "Project_findById 10 sample_db = Some sample_project"
  by code_simp

lemma sample_project_team: "proj_team sample_project = Some sample_team"
  by (simp add: sample_project_def)

lemma sample_chat_request_valid: "hasText (req_content (sample_chat_request u))"
  by (simp add: sample_chat_request_def hasText_def trim_def isWhiteSpace_def)

lemma sample_reply_request_valid: "hasText (rr_content (sample_reply_request c u))"
  by (simp add: sample_reply_request_def hasText_def trim_def isWhiteSpace_def)

lemma sample_chat_found: "Chat_findById 20 sample_db = Some sample_chat"
  by code_simp

text \<open>
  Claim C6, as stated, fails for requests that do not get as far as the access check:
  both handlers validate the input first, and the reply handler also looks the chat up
  first. A caller of the organisation who is not in the team and submits an empty message
  is answered 400, and the same caller asking for a reply in a chat that does not exist is
  answered 404, not 403. Nothing is persisted either way.
\<close>

theorem guard_order_counterexample:
  "Project_findById 10 sample_db = Some sample_project
   \<and> proj_team sample_project = Some sample_team
   \<and> role outsider_user = ''user''
   \<and> organization outsider_user = team_organization sample_team
   \<and> find (\<lambda>m. m = userId outsider_user) (team_members sample_team) = None
   \<and> chatHandler sample_parse_value
        \<lparr>req_chatId = None, req_projectId = Some 10, req_content = None,
         req_selectedDatasets = JUndefined, req_files = [], req_user = outsider_user\<rparr>
        sample_db
       = (respond 400 (ErrorBody
            ''projectId and at least one of content, selectedDatasets, or files are required.''),
          sample_db)
   \<and> Chat_findById 99 sample_db = None
   \<and> aiReplyHandler answering_platform (sample_reply_request 99 outsider_user) sample_db
       = (respond 404 (ErrorBody ''Chat not found.''), sample_db)"
  by code_simp

text \<open>
  Claim C6, amended. Take a project with its team, and a submit and a reply request that
  name it. A caller with the role \<^verbatim>\<open>superadmin\<close> passes the access check whatever the
  team is, and neither handler ever answers such a caller with 403. A caller without that
  role whose organisation differs from the team's, or who shares the organisation but is
  not among the team's members, leaves the store exactly as it was, whatever the request,
  so no chat and no message is created; and when the request passes the checks that come
  before the access check (for a submit, some trimmed text, CSV file or dataset
  selection; for a reply, some trimmed text and an existing chat), the answer is 403 with
  \<^verbatim>\<open>Not in this organization.\<close>, respectively \<^verbatim>\<open>Not a member of this team.\<close>
\<close>

theorem access_guard_short_circuit:
  fixes d :: "jsval db"
  assumes "Project_findById pid d = Some project" and "proj_team project = Some team"
      and "req_projectId creq = Some pid" and "rr_projectId rreq = Some pid"
  shows
    "(role (req_user creq) = ''superadmin'' \<longrightarrow>
        accessControl (req_user creq) team = None
        \<and> res_status (fst (chatHandler pv creq d)) \<noteq> 403)
   \<and> (role (rr_user rreq) = ''superadmin'' \<longrightarrow>
        accessControl (rr_user rreq) team = None
        \<and> res_status (fst (aiReplyHandler pf rreq d)) \<noteq> 403)
   \<and> (role (req_user creq) \<noteq> ''superadmin''
        \<and> team_organization team \<noteq> organization (req_user creq) \<longrightarrow>
        snd (chatHandler pv creq d) = d
        \<and> (hasText (req_content creq) \<or> filter isCsvUpload (req_files creq) \<noteq> []
             \<or> parseSelectedDatasets pv (req_selectedDatasets creq) \<noteq> [] \<longrightarrow>
           fst (chatHandler pv creq d) = respond 403 (ErrorBody ''Not in this organization.'')))
   \<and> (role (req_user creq) \<noteq> ''superadmin''
        \<and> team_organization team = organization (req_user creq)
        \<and> userId (req_user creq) \<notin> set (team_members team) \<longrightarrow>
        snd (chatHandler pv creq d) = d
        \<and> (hasText (req_content creq) \<or> filter isCsvUpload (req_files creq) \<noteq> []
             \<or> parseSelectedDatasets pv (req_selectedDatasets creq) \<noteq> [] \<longrightarrow>
           fst (chatHandler pv creq d) = respond 403 (ErrorBody ''Not a member of this team.'')))
   \<and> (role (rr_user rreq) \<noteq> ''superadmin''
        \<and> team_organization team \<noteq> organization (rr_user rreq) \<longrightarrow>
        snd (aiReplyHandler pf rreq d) = d
        \<and> (hasText (rr_content rreq)
             \<and> (\<exists>cid chat. rr_chatId rreq = Some cid \<and> Chat_findById cid d = Some chat) \<longrightarrow>
           fst (aiReplyHandler pf rreq d) = respond 403 (ErrorBody ''Not in this organization.'')))
   \<and> (role (rr_user rreq) \<noteq> ''superadmin''
        \<and> team_organization team = organization (rr_user rreq)
        \<and> userId (rr_user rreq) \<notin> set (team_members team) \<longrightarrow>
        snd (aiReplyHandler pf rreq d) = d
        \<and> (hasText (rr_content rreq)
             \<and> (\<exists>cid chat. rr_chatId rreq = Some cid \<and> Chat_findById cid d = Some chat) \<longrightarrow>
           fst (aiReplyHandler pf rreq d) = respond 403 (ErrorBody ''Not a member of this team.'')))"
proof (intro conjI impI; (elim conjE exE)?)
  assume "role (req_user creq) = ''superadmin''"
  then show "accessControl (req_user creq) team = None"
    and "res_status (fst (chatHandler pv creq d)) \<noteq> 403"
    by (simp_all add: superadmin_allowed chatHandler_superadmin)
next
  assume "role (rr_user rreq) = ''superadmin''"
  then show "accessControl (rr_user rreq) team = None"
    and "res_status (fst (aiReplyHandler pf rreq d)) \<noteq> 403"
    by (simp_all add: superadmin_allowed aiReplyHandler_superadmin)
next
  assume a: "role (req_user creq) \<noteq> ''superadmin''"
    "team_organization team \<noteq> organization (req_user creq)"
  note den = accessControl_wrong_org [OF a]
  show "snd (chatHandler pv creq d) = d"
    by (rule chatHandler_denied(1) [OF assms(3) assms(1) assms(2) den])
  assume "hasText (req_content creq) \<or> filter isCsvUpload (req_files creq) \<noteq> []
             \<or> parseSelectedDatasets pv (req_selectedDatasets creq) \<noteq> []"
  then show "fst (chatHandler pv creq d) = respond 403 (ErrorBody ''Not in this organization.'')"
    by (rule chatHandler_denied(2) [OF assms(3) assms(1) assms(2) den])
next
  assume a: "role (req_user creq) \<noteq> ''superadmin''"
    "team_organization team = organization (req_user creq)"
    "userId (req_user creq) \<notin> set (team_members team)"
  note den = accessControl_not_member [OF a]
  show "snd (chatHandler pv creq d) = d"
    by (rule chatHandler_denied(1) [OF assms(3) assms(1) assms(2) den])
  assume "hasText (req_content creq) \<or> filter isCsvUpload (req_files creq) \<noteq> []
             \<or> parseSelectedDatasets pv (req_selectedDatasets creq) \<noteq> []"
  then show "fst (chatHandler pv creq d) = respond 403 (ErrorBody ''Not a member of this team.'')"
    by (rule chatHandler_denied(2) [OF assms(3) assms(1) assms(2) den])
next
  assume a: "role (rr_user rreq) \<noteq> ''superadmin''"
    "team_organization team \<noteq> organization (rr_user rreq)"
  note den = accessControl_wrong_org [OF a]
  show "snd (aiReplyHandler pf rreq d) = d"
    by (rule aiReplyHandler_denied(1) [OF assms(4) assms(1) assms(2) den])
  fix cid chat
  assume "hasText (rr_content rreq)" "rr_chatId rreq = Some cid" "Chat_findById cid d = Some chat"
  then show "fst (aiReplyHandler pf rreq d) = respond 403 (ErrorBody ''Not in this organization.'')"
    by (rule aiReplyHandler_denied(2) [OF assms(4) assms(1) assms(2) den])
next
  assume a: "role (rr_user rreq) \<noteq> ''superadmin''"
    "team_organization team = organization (rr_user rreq)"
    "userId (rr_user rreq) \<notin> set (team_members team)"
  note den = accessControl_not_member [OF a]
  show "snd (aiReplyHandler pf rreq d) = d"
    by (rule aiReplyHandler_denied(1) [OF assms(4) assms(1) assms(2) den])
  fix cid chat
  assume "hasText (rr_content rreq)" "rr_chatId rreq = Some cid" "Chat_findById cid d = Some chat"
  then show "fst (aiReplyHandler pf rreq d) = respond 403 (ErrorBody ''Not a member of this team.'')"
    by (rule aiReplyHandler_denied(2) [OF assms(4) assms(1) assms(2) den])
qed

text \<open>On the sample world: the superadmin, the caller from another organisation and the
  caller outside the team, on both operations.\<close>

theorem access_guard_short_circuit_witness:
  "res_status (fst (chatHandler sample_parse_value (sample_chat_request super_user) sample_db)) \<noteq> 403
   \<and> res_status (fst (aiReplyHandler answering_platform (sample_reply_request 20 super_user) sample_db)) \<noteq> 403
   \<and> chatHandler sample_parse_value (sample_chat_request foreign_user) sample_db
        = (respond 403 (ErrorBody ''Not in this organization.''), sample_db)
   \<and> chatHandler sample_parse_value (sample_chat_request outsider_user) sample_db
        = (respond 403 (ErrorBody ''Not a member of this team.''), sample_db)
   \<and> aiReplyHandler answering_platform (sample_reply_request 20 foreign_user) sample_db
        = (respond 403 (ErrorBody ''Not in this organization.''), sample_db)
   \<and> aiReplyHandler answering_platform (sample_reply_request 20 outsider_user) sample_db
        = (respond 403 (ErrorBody ''Not a member of this team.''), sample_db)"
proof -
  have c: "\<And>u. req_projectId (sample_chat_request u) = Some 10"
    and r: "\<And>u. rr_projectId (sample_reply_request 20 u) = Some 10"
    and ru: "\<And>u. rr_user (sample_reply_request 20 u) = u"
    and cu: "\<And>u. req_user (sample_chat_request u) = u"
    and rc: "\<And>u. rr_chatId (sample_reply_request 20 u) = Some 20"
    by (simp_all add: sample_chat_request_def sample_reply_request_def)
  note g = access_guard_short_circuit [OF sample_project_found sample_project_team c r,
      where pv = sample_parse_value and pf = answering_platform]
  have s: "res_status (fst (chatHandler sample_parse_value (sample_chat_request super_user) sample_db)) \<noteq> 403"
    "res_status (fst (aiReplyHandler answering_platform (sample_reply_request 20 super_user) sample_db)) \<noteq> 403"
    using g [of super_user super_user] by (simp_all add: cu ru super_user_def)
  have f: "snd (chatHandler sample_parse_value (sample_chat_request foreign_user) sample_db) = sample_db"
    "fst (chatHandler sample_parse_value (sample_chat_request foreign_user) sample_db)
       = respond 403 (ErrorBody ''Not in this organization.'')"
    "snd (aiReplyHandler answering_platform (sample_reply_request 20 foreign_user) sample_db) = sample_db"
    "fst (aiReplyHandler answering_platform (sample_reply_request 20 foreign_user) sample_db)
       = respond 403 (ErrorBody ''Not in this organization.'')"
    using g [of foreign_user foreign_user] sample_chat_found
    by (simp_all add: cu ru rc foreign_user_def sample_team_def sample_chat_request_valid
          sample_reply_request_valid)
  have "team_organization sample_team = organization outsider_user"
    "userId outsider_user \<notin> set (team_members sample_team)"
    "role outsider_user \<noteq> ''superadmin''"
    by (simp_all add: outsider_user_def sample_team_def)
  then have out: "snd (chatHandler sample_parse_value (sample_chat_request outsider_user) sample_db) = sample_db"
    "fst (chatHandler sample_parse_value (sample_chat_request outsider_user) sample_db)
       = respond 403 (ErrorBody ''Not a member of this team.'')"
    "snd (aiReplyHandler answering_platform (sample_reply_request 20 outsider_user) sample_db) = sample_db"
    "fst (aiReplyHandler answering_platform (sample_reply_request 20 outsider_user) sample_db)
       = respond 403 (ErrorBody ''Not a member of this team.'')"
    using g [of outsider_user outsider_user] sample_chat_found
    by (simp_all add: cu ru rc sample_chat_request_valid sample_reply_request_valid)
  from s f out show ?thesis by (simp add: prod_eq_iff)
qed

section \<open>Blank dataset selections\<close>

lemma ws_not_value_start: "isWhiteSpace c \<Longrightarrow> \<not> value_start c"
  by (auto simp: isWhiteSpace_def value_start_def)

lemma ws_not_comma: "isWhiteSpace c \<Longrightarrow> c \<noteq> CHR '',''"
  by (auto simp: isWhiteSpace_def)

lemma JSON_parse_blank:
  assumes "\<forall>c\<in>set s. isWhiteSpace c"
  shows "JSON_parse pv s = None"
proof (cases "dropWhile json_ws s")
  case Nil
  show ?thesis by (simp add: JSON_parse_def Nil)
next
  case (Cons c cs)
  then have "c \<in> set (dropWhile json_ws s)" by simp
  then have "c \<in> set s" by (rule set_dropWhileD)
  with assms have "\<not> value_start c" by (simp add: ws_not_value_start)
  then show ?thesis by (simp add: JSON_parse_def Cons)
qed

lemma trim_blank:
  assumes "\<forall>c\<in>set s. isWhiteSpace c"
  shows "trim s = []"
proof -
  from assms have h: "dropWhile isWhiteSpace s = []" by simp
  show ?thesis unfolding trim_def h by simp
qed

lemma parseSelectedDatasets_blank:
  assumes "s \<noteq> []" and "\<forall>c\<in>set s. isWhiteSpace c"
  shows "parseSelectedDatasets pv (JStr s) = [JStr []]"
proof -
  have "CHR '','' \<notin> set s" using assms(2) ws_not_comma by blast
  then show ?thesis
    using assms by (simp add: parseSelectedDatasets_def JSON_parse_blank trim_blank)
qed

text \<open>The no-break space is white space to \<^verbatim>\<open>trim\<close>, though not to the JSON grammar.\<close>

lemma no_break_space_is_blank:
  "trim [CHR 0xA0] = [] \<and> \<not> hasText (Some [CHR 0xA0])
   \<and> parseSelectedDatasets pv (JStr [CHR 0xA0]) = [JStr []]"
  using parseSelectedDatasets_blank [of "[CHR 0xA0]" pv]
  by (simp add: trim_def hasText_def isWhiteSpace_def)

lemma blank_request_allowed: "accessControl (req_user blank_selection_request) sample_team = None"
  by (simp add: blank_selection_request_def member_user_def sample_team_def accessControl_def)

lemma blank_request_resolves:
  "fst (resolveChat (req_chatId blank_selection_request) sample_project sample_db) \<noteq> None"
  by code_simp

text \<open>
  Claim C10. A \<^verbatim>\<open>selectedDatasets\<close> string made of white space only is not valid
  JSON and has no comma, so the normalisation returns the one-element list holding the
  empty string, not the empty list. A submission with such a string, no text and no file
  therefore passes the empty-message validation; with the project, the team, the access
  check and the chat in order, the handler answers 200 and appends one user message whose
  selected ids are that single empty string.
\<close>

theorem blank_selection_one_empty_id:
  fixes d :: "jsval db"
  assumes "s \<noteq> []" and "\<forall>c\<in>set s. isWhiteSpace c"
      and "req_selectedDatasets req = JStr s"
      and "\<not> hasText (req_content req)" and "req_files req = []"
      and "req_projectId req = Some pid"
      and "Project_findById pid d = Some project"
      and "proj_team project = Some team"
      and "accessControl (req_user req) team = None"
      and "fst (resolveChat (req_chatId req) project d) \<noteq> None"
  shows "parseSelectedDatasets pv (JStr s) = [JStr []]
       \<and> res_status (fst (chatHandler pv req d)) = 200
       \<and> (\<exists>m. messages (snd (chatHandler pv req d)) = messages d @ [m]
              \<and> msg_sender m = ''user'' \<and> msg_content m = None \<and> msg_tempFiles m = []
              \<and> msg_selectedDatasets m = [JStr []])"
proof -
  have p: "parseSelectedDatasets pv (JStr s) = [JStr []]"
    using assms(1,2) by (rule parseSelectedDatasets_blank)
  obtain chat d1 where rc: "resolveChat (req_chatId req) project d = (Some chat, d1)"
    using assms(10) by (cases "resolveChat (req_chatId req) project d") auto
  have m1: "messages d1 = messages d"
    using resolveChat_messages [of "req_chatId req" project d] rc by simp
  have valid: "hasText (req_content req) \<or> filter isCsvUpload (req_files req) \<noteq> []
           \<or> parseSelectedDatasets pv (req_selectedDatasets req) \<noteq> []"
    using p assms(3) by simp
  note sv = chatHandler_saved [OF assms(6) valid assms(7) assms(8) assms(9) rc]
  have c: "trimmedOrNull (req_content req) = None"
    using assms(4) by (auto simp: trimmedOrNull_def hasText_def split: option.splits)
  have "res_status (fst (chatHandler pv req d)) = 200"
    by (simp add: sv respond_def)
  moreover have "\<exists>m. messages (snd (chatHandler pv req d)) = messages d @ [m]
              \<and> msg_sender m = ''user'' \<and> msg_content m = None \<and> msg_tempFiles m = []
              \<and> msg_selectedDatasets m = [JStr []]"
    by (simp add: sv m1 c p assms(3) assms(5))
  ultimately show ?thesis using p by blast
qed

text \<open>A space, a no-break space and a tab, sent by a team member to the sample project.\<close>

theorem blank_selection_one_empty_id_witness:
  "parseSelectedDatasets sample_parse_value (JStr [CHR 0x20, CHR 0xA0, CHR 0x09]) = [JStr []]
   \<and> res_status (fst (chatHandler sample_parse_value blank_selection_request sample_db)) = 200
   \<and> (\<exists>m. messages (snd (chatHandler sample_parse_value blank_selection_request sample_db))
             = messages sample_db @ [m]
          \<and> msg_sender m = ''user'' \<and> msg_content m = None \<and> msg_tempFiles m = []
          \<and> msg_selectedDatasets m = [JStr []])"
proof -
  have a: "[CHR 0x20, CHR 0xA0, CHR 0x09] \<noteq> []" "\<forall>c\<in>set [CHR 0x20, CHR 0xA0, CHR 0x09]. isWhiteSpace c"
    by (simp_all add: isWhiteSpace_def)
  have b: "req_selectedDatasets blank_selection_request = JStr [CHR 0x20, CHR 0xA0, CHR 0x09]"
    "\<not> hasText (req_content blank_selection_request)"
    "req_files blank_selection_request = []"
    "req_projectId blank_selection_request = Some 10"
    by (simp_all add: blank_selection_request_def hasText_def)
  show ?thesis
    by (rule blank_selection_one_empty_id [OF a b sample_project_found sample_project_team
          blank_request_allowed blank_request_resolves])
qed

section \<open>Chat resolution\<close>

lemma find_hd_filter: "find P xs = (case filter P xs of [] \<Rightarrow> None | x # _ \<Rightarrow> Some x)"
  by (induction xs) auto

lemma resolveChat_given:
  "resolveChat (Some cid) project d = (Chat_findOne_id_project cid (proj_id project) d, d)"
  by (simp add: resolveChat_def)

lemma Chat_findOne_id_project_SomeD:
  "Chat_findOne_id_project cid pid d = Some c \<Longrightarrow>
     chat_id c = cid \<and> chat_project c = pid \<and> c \<in> set (chats d)"
  unfolding Chat_findOne_id_project_def by (auto dest: find_SomeD)

lemma resolveChat_existing:
  assumes "\<exists>c\<in>set (chats d). chat_project c = proj_id project"
  shows "resolveChat None project d
           = (Some (hd (filter (\<lambda>c. chat_project c = proj_id project) (chats d))), d)"
proof -
  from assms have "filter (\<lambda>c. chat_project c = proj_id project) (chats d) \<noteq> []"
    by (auto simp: filter_empty_conv)
  then show ?thesis
    by (auto simp: resolveChat_def Chat_findOne_project_def find_hd_filter split: list.splits)
qed

lemma resolveChat_created:
  assumes "\<forall>c\<in>set (chats d). chat_project c \<noteq> proj_id project"
  shows "resolveChat None project d =
           (Some \<lparr>chat_id = nextId d, chat_project = proj_id project, chat_title = ''New chat'',
                   chat_messages = []\<rparr>,
            Project_save (project\<lparr>proj_chats := proj_chats project @ [nextId d]\<rparr>)
              (d\<lparr>chats := chats d @ [\<lparr>chat_id = nextId d, chat_project = proj_id project,
                                       chat_title = ''New chat'', chat_messages = []\<rparr>],
                 nextId := Suc (nextId d)\<rparr>))"
proof -
  from assms have "Chat_findOne_project (proj_id project) d = None"
    by (simp add: Chat_findOne_project_def find_None_iff')
  then show ?thesis by (simp add: resolveChat_def Chat_create_def Let_def)
qed

lemma find_map_update:
  assumes "find (\<lambda>p. key p = k) xs = Some x" and "key y = k"
  shows "find (\<lambda>p. key p = k) (map (\<lambda>p. if key p = k then y else p) xs) = Some y"
  using assms by (induction xs) (auto split: if_splits)

lemma Project_save_findById:
  assumes "Project_findById (proj_id p) d = Some p0" and "proj_id p = proj_id p0"
  shows "Project_findById (proj_id p0) (Project_save p d) = Some p"
  using assms find_map_update [of proj_id "proj_id p" "projects d" p0 p]
  by (simp add: Project_findById_def Project_save_def)

lemma Project_findById_id: "Project_findById pid d = Some p \<Longrightarrow> proj_id p = pid \<and> p \<in> set (projects d)"
  unfolding Project_findById_def by (auto dest: find_SomeD)

lemma chats_Project_save [simp]: "chats (Project_save p d) = chats d"
  by (simp add: Project_save_def)

lemma resolveChat_SomeD:
  assumes "resolveChat cid project d = (Some chat, d1)"
  shows "chat \<in> set (chats d1) \<and> chat_project chat = proj_id project
       \<and> (chats d1 = chats d
          \<or> (\<forall>c\<in>set (chats d). chat_project c \<noteq> proj_id project) \<and> chats d1 = chats d @ [chat])"
proof (cases cid)
  case (Some c)
  with assms show ?thesis
    by (auto simp: resolveChat_given dest: Chat_findOne_id_project_SomeD)
next
  case None
  show ?thesis
  proof (cases "\<exists>c\<in>set (chats d). chat_project c = proj_id project")
    case True
    then have ne: "filter (\<lambda>c. chat_project c = proj_id project) (chats d) \<noteq> []"
      by (auto simp: filter_empty_conv)
    from resolveChat_existing [OF True] assms None
    have c: "chat = hd (filter (\<lambda>c. chat_project c = proj_id project) (chats d))" and d: "d1 = d"
      by auto
    from ne have "hd (filter (\<lambda>c. chat_project c = proj_id project) (chats d))
        \<in> set (filter (\<lambda>c. chat_project c = proj_id project) (chats d))"
      by (rule hd_in_set)
    with c d show ?thesis by simp
  next
    case False
    then have no: "\<forall>c\<in>set (chats d). chat_project c \<noteq> proj_id project" by blast
    from resolveChat_created [OF no] assms None no show ?thesis by auto
  qed
qed

lemma chatHandler_chats:
  assumes "req_projectId req = Some pid"
  shows "((\<exists>c\<in>set (chats d). chat_project c = pid) \<longrightarrow>
            length (chats (snd (chatHandler pv req d))) = length (chats d)
            \<and> (\<exists>c\<in>set (chats (snd (chatHandler pv req d))). chat_project c = pid))
       \<and> (chats (snd (chatHandler pv req d)) = chats d
          \<or> length (chats (snd (chatHandler pv req d))) = length (chats d)
          \<or> length (chats (snd (chatHandler pv req d))) = length (chats d) + 1
             \<and> (\<exists>c\<in>set (chats (snd (chatHandler pv req d))). chat_project c = pid))"
proof (cases rule: chatHandler_cases [of pv req d])
  case (rejected st msg)
  then show ?thesis by simp
next
  case (saved pid' project team chat d1)
  with assms have pid: "pid' = pid" by simp
  from saved(3) pid have pp: "proj_id project = pid" by (simp add: Project_findById_id)
  note sv = chatHandler_saved [OF saved]
  let ?chat' = "chat\<lparr>chat_messages := chat_messages chat @ [nextId d1]\<rparr>"
  have ch: "chats (snd (chatHandler pv req d))
            = map (\<lambda>x. if chat_id x = chat_id chat then ?chat' else x) (chats d1)"
    by (simp add: sv Chat_save_def)
  from resolveChat_SomeD [OF saved(6)] pp
  have mem: "chat \<in> set (chats d1)" and cp: "chat_project chat = pid"
    and alt: "chats d1 = chats d
          \<or> (\<forall>c\<in>set (chats d). chat_project c \<noteq> pid) \<and> chats d1 = chats d @ [chat]"
    by simp_all
  have "?chat' \<in> set (chats (snd (chatHandler pv req d)))"
    unfolding ch using mem by (auto simp: image_iff intro!: bexI [of _ chat])
  moreover have "chat_project ?chat' = pid" using cp by simp
  ultimately have ex: "\<exists>c\<in>set (chats (snd (chatHandler pv req d))). chat_project c = pid"
    by blast
  have len: "length (chats (snd (chatHandler pv req d))) = length (chats d1)"
    by (simp add: ch)
  from alt show ?thesis
  proof
    assume "chats d1 = chats d"
    with len ex show ?thesis by simp
  next
    assume "(\<forall>c\<in>set (chats d). chat_project c \<noteq> pid) \<and> chats d1 = chats d @ [chat]"
    with len ex show ?thesis by auto
  qed
qed

lemma sequential_submissions_chats:
  assumes "\<forall>r\<in>set reqs. req_projectId r = Some pid"
  shows "length (chats (foldl (\<lambda>st r. snd (chatHandler pv r st)) d reqs)) \<le> length (chats d) + 1
       \<and> ((\<exists>c\<in>set (chats d). chat_project c = pid) \<longrightarrow>
            length (chats (foldl (\<lambda>st r. snd (chatHandler pv r st)) d reqs)) = length (chats d))"
  using assms
proof (induction reqs arbitrary: d)
  case Nil
  then show ?case by simp
next
  case (Cons r reqs)
  let ?d' = "snd (chatHandler pv r d)"
  let ?fin = "foldl (\<lambda>st r. snd (chatHandler pv r st)) ?d' reqs"
  from Cons.prems have r: "req_projectId r = Some pid" and rest: "\<forall>r\<in>set reqs. req_projectId r = Some pid"
    by simp_all
  note step = chatHandler_chats [OF r, of d pv]
  note ih = Cons.IH [OF rest, of ?d']
  have fin: "foldl (\<lambda>st r. snd (chatHandler pv r st)) d (r # reqs) = ?fin" by simp
  show ?case
  proof (cases "\<exists>c\<in>set (chats d). chat_project c = pid")
    case True
    with step have "length (chats ?d') = length (chats d)"
      and "\<exists>c\<in>set (chats ?d'). chat_project c = pid" by blast+
    with ih have "length (chats ?fin) = length (chats d)" by simp
    then show ?thesis unfolding fin by simp
  next
    case False
    from step have "chats ?d' = chats d \<or> length (chats ?d') = length (chats d)
          \<or> length (chats ?d') = length (chats d) + 1
             \<and> (\<exists>c\<in>set (chats ?d'). chat_project c = pid)" by blast
    then have "length (chats ?fin) \<le> length (chats d) + 1"
    proof (elim disjE conjE)
      assume "chats ?d' = chats d"
      with ih show ?thesis by simp
    next
      assume "length (chats ?d') = length (chats d)"
      with ih show ?thesis by simp
    next
      assume "length (chats ?d') = length (chats d) + 1"
        and "\<exists>c\<in>set (chats ?d'). chat_project c = pid"
      with ih show ?thesis by simp
    qed
    with False show ?thesis unfolding fin by simp
  qed
qed

lemma fresh_project_found: "Project_findById 10 fresh_db = Some fresh_project"
  by code_simp

text \<open>
  Claim C8, as stated, fails in its middle part: without a chat id the handler asks the
  store for any chat of the project, with no order given, and the store hands over the
  first one it holds. The sample project has chats 20 and 21, 21 being the one
  associated last; the submission lands in chat 20.
\<close>

theorem most_recent_chat_counterexample:
  "Project_findById 10 sample_db = Some sample_project
   \<and> proj_chats sample_project = [20, 21]
   \<and> chats sample_db = [sample_chat, plain_chat]
   \<and> chat_id plain_chat = 21 \<and> chat_project plain_chat = 10
   \<and> resolveChat None sample_project sample_db = (Some sample_chat, sample_db)
   \<and> chat_id sample_chat = 20
   \<and> fst (chatHandler sample_parse_value (sample_chat_request member_user) sample_db)
        = respond 200 (SavedBody ''User message saved.'' 20)"
  by code_simp

text \<open>
  Claim C8, amended. With a chat id, the chat of that id within the project is looked up
  and the store is left alone, so resolving the same id twice gives the same answer and
  creates nothing. Without a chat id, if the project has a chat, the first such chat in
  the store's order is returned and the store is left alone; only if it has none is a
  chat created, with title \<^verbatim>\<open>New chat\<close>, no messages and the project as owner, appended
  to the chats and registered on the project, and a second resolution then returns that
  same chat. Any sequence of submissions to one project, run one after the other, leaves
  at most one chat more than there was.
\<close>

theorem chat_resolution:
  fixes d :: "jsval db"
  assumes "Project_findById pid d = Some project"
  shows
    "(\<forall>cid. resolveChat (Some cid) project d = (Chat_findOne_id_project cid pid d, d)
           \<and> resolveChat (Some cid) project (snd (resolveChat (Some cid) project d))
               = resolveChat (Some cid) project d
           \<and> (\<forall>c. Chat_findOne_id_project cid pid d = Some c \<longrightarrow>
                  chat_id c = cid \<and> chat_project c = pid \<and> c \<in> set (chats d)))
   \<and> ((\<exists>c\<in>set (chats d). chat_project c = pid) \<longrightarrow>
        resolveChat None project d
          = (Some (hd (filter (\<lambda>c. chat_project c = pid) (chats d))), d))
   \<and> ((\<forall>c\<in>set (chats d). chat_project c \<noteq> pid) \<longrightarrow>
        (\<exists>c d'. resolveChat None project d = (Some c, d')
           \<and> chat_project c = pid \<and> chat_title c = ''New chat'' \<and> chat_messages c = []
           \<and> chats d' = chats d @ [c] \<and> messages d' = messages d
           \<and> Project_findById pid d' = Some (project\<lparr>proj_chats := proj_chats project @ [chat_id c]\<rparr>)
           \<and> resolveChat None (project\<lparr>proj_chats := proj_chats project @ [chat_id c]\<rparr>) d'
               = (Some c, d')))
   \<and> ((\<forall>r\<in>set reqs. req_projectId r = Some pid) \<longrightarrow>
        length (chats (foldl (\<lambda>st r. snd (chatHandler pv r st)) d reqs)) \<le> length (chats d) + 1)"
proof -
  from assms have pp: "proj_id project = pid" by (simp add: Project_findById_id)
  have a: "\<forall>cid. resolveChat (Some cid) project d = (Chat_findOne_id_project cid pid d, d)
           \<and> resolveChat (Some cid) project (snd (resolveChat (Some cid) project d))
               = resolveChat (Some cid) project d
           \<and> (\<forall>c. Chat_findOne_id_project cid pid d = Some c \<longrightarrow>
                  chat_id c = cid \<and> chat_project c = pid \<and> c \<in> set (chats d))"
    using pp by (auto simp: resolveChat_given dest: Chat_findOne_id_project_SomeD)
  have b: "(\<exists>c\<in>set (chats d). chat_project c = pid) \<longrightarrow>
        resolveChat None project d
          = (Some (hd (filter (\<lambda>c. chat_project c = pid) (chats d))), d)"
    using resolveChat_existing [of d project] pp by simp
  have c: "(\<forall>c\<in>set (chats d). chat_project c \<noteq> pid) \<longrightarrow>
        (\<exists>c d'. resolveChat None project d = (Some c, d')
           \<and> chat_project c = pid \<and> chat_title c = ''New chat'' \<and> chat_messages c = []
           \<and> chats d' = chats d @ [c] \<and> messages d' = messages d
           \<and> Project_findById pid d' = Some (project\<lparr>proj_chats := proj_chats project @ [chat_id c]\<rparr>)
           \<and> resolveChat None (project\<lparr>proj_chats := proj_chats project @ [chat_id c]\<rparr>) d'
               = (Some c, d'))"
  proof
    assume no: "\<forall>c\<in>set (chats d). chat_project c \<noteq> pid"
    let ?c = "\<lparr>chat_id = nextId d, chat_project = proj_id project, chat_title = ''New chat'',
               chat_messages = []\<rparr>"
    let ?p = "project\<lparr>proj_chats := proj_chats project @ [nextId d]\<rparr>"
    let ?d1 = "d\<lparr>chats := chats d @ [?c], nextId := Suc (nextId d)\<rparr>"
    let ?d' = "Project_save ?p ?d1"
    from no pp have no': "\<forall>c\<in>set (chats d). chat_project c \<noteq> proj_id project" by simp
    have r: "resolveChat None project d = (Some ?c, ?d')"
      by (rule resolveChat_created [OF no'])
    have f1: "Project_findById (proj_id ?p) ?d1 = Some project"
      using assms pp by (simp add: Project_findById_def)
    have f: "Project_findById pid ?d' = Some ?p"
      using Project_save_findById [OF f1] pp by simp
    have ex: "\<exists>c\<in>set (chats ?d'). chat_project c = proj_id ?p" by simp
    have flt: "filter (\<lambda>c. chat_project c = proj_id project) (chats d) = []"
      using no' by (simp add: filter_empty_conv)
    have again: "resolveChat None ?p ?d' = (Some ?c, ?d')"
      using resolveChat_existing [OF ex] by (simp add: flt)
    show "\<exists>c d'. resolveChat None project d = (Some c, d')
           \<and> chat_project c = pid \<and> chat_title c = ''New chat'' \<and> chat_messages c = []
           \<and> chats d' = chats d @ [c] \<and> messages d' = messages d
           \<and> Project_findById pid d' = Some (project\<lparr>proj_chats := proj_chats project @ [chat_id c]\<rparr>)
           \<and> resolveChat None (project\<lparr>proj_chats := proj_chats project @ [chat_id c]\<rparr>) d'
               = (Some c, d')"
      using r f again pp by (intro exI [of _ ?c] exI [of _ ?d']) simp
  qed
  have e: "(\<forall>r\<in>set reqs. req_projectId r = Some pid) \<longrightarrow>
        length (chats (foldl (\<lambda>st r. snd (chatHandler pv r st)) d reqs)) \<le> length (chats d) + 1"
    using sequential_submissions_chats [of reqs pid pv d] by blast
  from a b c e show ?thesis by blast
qed

text \<open>On the sample project with its two chats, and on the project before its first
  chat, where two submissions in a row create exactly one.\<close>

theorem chat_resolution_witness:
  "resolveChat (Some 20) sample_project sample_db = (Some sample_chat, sample_db)
   \<and> resolveChat None sample_project sample_db = (Some sample_chat, sample_db)
   \<and> chats fresh_db = []
   \<and> length (chats (snd (resolveChat None fresh_project fresh_db))) = 1
   \<and> length (chats (foldl (\<lambda>st r. snd (chatHandler sample_parse_value r st)) fresh_db
                [sample_chat_request member_user, sample_chat_request member_user])) = 1"
proof -
  let ?reqs = "[sample_chat_request member_user, sample_chat_request member_user]"
  note s = chat_resolution [OF sample_project_found, where pv = sample_parse_value and reqs = ?reqs]
  note f = chat_resolution [OF fresh_project_found, where pv = sample_parse_value and reqs = ?reqs]
  have "Chat_findOne_id_project 20 10 sample_db = Some sample_chat" by code_simp
  with s have a: "resolveChat (Some 20) sample_project sample_db = (Some sample_chat, sample_db)"
    by simp
  have "\<exists>c\<in>set (chats sample_db). chat_project c = 10"
    by (simp add: sample_db_def sample_chat_def)
  moreover have "hd (filter (\<lambda>c. chat_project c = 10) (chats sample_db)) = sample_chat"
    by (simp add: sample_db_def sample_chat_def)
  ultimately have b: "resolveChat None sample_project sample_db = (Some sample_chat, sample_db)"
    using s by simp
  have e: "chats fresh_db = []" by (simp add: fresh_db_def)
  then have "\<forall>c\<in>set (chats fresh_db). chat_project c \<noteq> 10" by simp
  with f obtain c d' where "resolveChat None fresh_project fresh_db = (Some c, d')"
    "chats d' = chats fresh_db @ [c]" by blast
  with e have c: "length (chats (snd (resolveChat None fresh_project fresh_db))) = 1" by simp
  have "\<forall>r\<in>set ?reqs. req_projectId r = Some 10" by (simp add: sample_chat_request_def)
  with f e have "length (chats (foldl (\<lambda>st r. snd (chatHandler sample_parse_value r st)) fresh_db ?reqs)) \<le> 1"
    by simp
  moreover have "1 \<le> length (chats (foldl (\<lambda>st r. snd (chatHandler sample_parse_value r st)) fresh_db ?reqs))"
    by code_simp
  ultimately have g: "length (chats (foldl (\<lambda>st r. snd (chatHandler sample_parse_value r st)) fresh_db ?reqs)) = 1"
    by simp
  from a b e c g show ?thesis by blast
qed

section \<open>Senders of persisted messages\<close>

lemma chatHandler_outcome:
  "(\<exists>m. res_status (fst (chatHandler pv req d)) = 200
        \<and> messages (snd (chatHandler pv req d)) = messages d @ [m]
        \<and> msg_sender m = ''user'')
   \<or> (res_status (fst (chatHandler pv req d)) \<in> {400, 403, 404} \<and> snd (chatHandler pv req d) = d)"
proof (cases rule: chatHandler_cases [of pv req d])
  case (rejected st msg)
  then show ?thesis by (auto simp: respond_def)
next
  case (saved pid project team chat d1)
  have m1: "messages d1 = messages d"
    using resolveChat_messages [of "req_chatId req" project d] saved(6) by simp
  show ?thesis
    by (rule disjI1) (simp add: chatHandler_saved [OF saved] m1 respond_def)
qed

lemma aiReplyHandler_outcome:
  "(\<exists>m analysis. fst (aiReplyHandler pf req d) = respond 200 (AnalysisBody analysis)
        \<and> messages (snd (aiReplyHandler pf req d)) = messages d @ [m]
        \<and> msg_sender m = ''chatbot'' \<and> msg_content m = JSON_stringify pf analysis
        \<and> msg_selectedDatasets m = [] \<and> msg_tempFiles m = [])
   \<or> (res_status (fst (aiReplyHandler pf req d)) \<in> {400, 403, 404, 500}
       \<and> snd (aiReplyHandler pf req d) = d)"
proof (cases "prepareReply pf req d")
  case (Inl early)
  then have "res_status early \<in> {400, 403, 404, 500}"
    by (auto simp: prepareReply_def Let_def respond_def
             split: option.splits if_splits dest!: accessControl_SomeD)
  with Inl show ?thesis by (simp add: aiReplyHandler_def)
next
  case (Inr cf)
  obtain chat form where cf: "cf = (chat, form)" by (cases cf)
  show ?thesis
  proof (cases "axios_post pf form")
    case (Inl err)
    with Inr cf show ?thesis by (simp add: aiReplyHandler_def respond_def)
  next
    case (Inr analysis)
    with \<open>prepareReply pf req d = Inr cf\<close> cf show ?thesis
      by (intro disjI1) (auto simp: aiReplyHandler_def Message_create_def Let_def)
  qed
qed

lemma sample_db_senders:
  "\<forall>m\<in>set (messages sample_db). msg_sender m = ''user'' \<or> msg_sender m = ''chatbot''"
  by (simp add: sample_db_def sample_messages_def plain_messages_def sample_message_def)

text \<open>
  Claim C9, as stated, fails: the message the reply operation persists carries the sender
  \<^verbatim>\<open>chatbot\<close>, not \<^verbatim>\<open>assistant\<close> (the latter is only the role given to such a message
  in the context sent to the engine). A successful reply on the sample chat shows it.
\<close>

theorem bot_sender_counterexample:
  "fst (aiReplyHandler answering_platform (sample_reply_request 20 member_user) sample_db)
     = respond 200 (AnalysisBody sample_analysis)
   \<and> length (messages (snd (aiReplyHandler answering_platform (sample_reply_request 20 member_user) sample_db)))
       = length (messages sample_db) + 1
   \<and> msg_sender (last (messages (snd (aiReplyHandler answering_platform
         (sample_reply_request 20 member_user) sample_db)))) = ''chatbot''
   \<and> ''chatbot'' \<noteq> ''assistant'' \<and> ''chatbot'' \<noteq> ''user''"
  by code_simp

text \<open>
  Claim C9, amended. A submission either answers 200 and appends exactly one message,
  with sender \<^verbatim>\<open>user\<close>, or answers 400, 403 or 404 and leaves the store alone. A reply
  either answers 200 with the analysis and appends exactly one message, with sender
  \<^verbatim>\<open>chatbot\<close> and the serialised analysis as content, or answers 400, 403, 404 or 500
  and leaves the store alone. Hence, if every stored message has sender \<^verbatim>\<open>user\<close> or
  \<^verbatim>\<open>chatbot\<close>, this still holds after either operation.
\<close>

theorem persisted_senders:
  fixes d :: "jsval db"
  shows
    "((\<exists>m. res_status (fst (chatHandler pv creq d)) = 200
          \<and> messages (snd (chatHandler pv creq d)) = messages d @ [m]
          \<and> msg_sender m = ''user'')
      \<or> (res_status (fst (chatHandler pv creq d)) \<in> {400, 403, 404}
          \<and> snd (chatHandler pv creq d) = d))
   \<and> ((\<exists>m analysis. fst (aiReplyHandler pf rreq d) = respond 200 (AnalysisBody analysis)
          \<and> messages (snd (aiReplyHandler pf rreq d)) = messages d @ [m]
          \<and> msg_sender m = ''chatbot'' \<and> msg_content m = JSON_stringify pf analysis
          \<and> msg_selectedDatasets m = [] \<and> msg_tempFiles m = [])
      \<or> (res_status (fst (aiReplyHandler pf rreq d)) \<in> {400, 403, 404, 500}
          \<and> snd (aiReplyHandler pf rreq d) = d))
   \<and> ((\<forall>m\<in>set (messages d). msg_sender m = ''user'' \<or> msg_sender m = ''chatbot'') \<longrightarrow>
        (\<forall>m\<in>set (messages (snd (chatHandler pv creq d))).
            msg_sender m = ''user'' \<or> msg_sender m = ''chatbot'')
        \<and> (\<forall>m\<in>set (messages (snd (aiReplyHandler pf rreq d))).
            msg_sender m = ''user'' \<or> msg_sender m = ''chatbot''))"
proof -
  note c = chatHandler_outcome [of pv creq d]
  note r = aiReplyHandler_outcome [of pf rreq d]
  have "(\<forall>m\<in>set (messages d). msg_sender m = ''user'' \<or> msg_sender m = ''chatbot'') \<longrightarrow>
        (\<forall>m\<in>set (messages (snd (chatHandler pv creq d))).
            msg_sender m = ''user'' \<or> msg_sender m = ''chatbot'')
        \<and> (\<forall>m\<in>set (messages (snd (aiReplyHandler pf rreq d))).
            msg_sender m = ''user'' \<or> msg_sender m = ''chatbot'')"
  proof (intro impI conjI)
    assume inv: "\<forall>m\<in>set (messages d). msg_sender m = ''user'' \<or> msg_sender m = ''chatbot''"
    from c inv show "\<forall>m\<in>set (messages (snd (chatHandler pv creq d))).
            msg_sender m = ''user'' \<or> msg_sender m = ''chatbot''"
      by (elim disjE exE conjE) simp_all
    from r inv show "\<forall>m\<in>set (messages (snd (aiReplyHandler pf rreq d))).
            msg_sender m = ''user'' \<or> msg_sender m = ''chatbot''"
      by (elim disjE exE conjE) simp_all
  qed
  with c r show ?thesis by blast
qed

text \<open>One submission and one reply by a team member on the sample store.\<close>

theorem persisted_senders_witness:
  "set (map msg_sender (messages (snd (chatHandler sample_parse_value
          (sample_chat_request member_user) sample_db)))) = {''user'', ''chatbot''}
   \<and> set (map msg_sender (messages (snd (aiReplyHandler answering_platform
          (sample_reply_request 20 member_user) sample_db)))) = {''user'', ''chatbot''}
   \<and> length (messages (snd (chatHandler sample_parse_value (sample_chat_request member_user) sample_db)))
       = Suc (length (messages sample_db))
   \<and> length (messages (snd (aiReplyHandler answering_platform
                (sample_reply_request 20 member_user) sample_db)))
       = Suc (length (messages sample_db))"
proof -
  let ?c = "messages (snd (chatHandler sample_parse_value (sample_chat_request member_user) sample_db))"
  let ?r = "messages (snd (aiReplyHandler answering_platform
                (sample_reply_request 20 member_user) sample_db))"
  note t = persisted_senders [of sample_parse_value "sample_chat_request member_user" sample_db
      answering_platform "sample_reply_request 20 member_user"]
  from t sample_db_senders
  have "\<forall>m\<in>set ?c. msg_sender m = ''user'' \<or> msg_sender m = ''chatbot''"
    and "\<forall>m\<in>set ?r. msg_sender m = ''user'' \<or> msg_sender m = ''chatbot''"
    by blast+
  then have sub: "set (map msg_sender ?c) \<subseteq> {''user'', ''chatbot''}"
    "set (map msg_sender ?r) \<subseteq> {''user'', ''chatbot''}"
    by auto
  have "''user'' \<in> set (map msg_sender ?c)" "''chatbot'' \<in> set (map msg_sender ?c)"
    "''user'' \<in> set (map msg_sender ?r)" "''chatbot'' \<in> set (map msg_sender ?r)"
    by code_simp+
  with sub have a: "set (map msg_sender ?c) = {''user'', ''chatbot''}"
    and b: "set (map msg_sender ?r) = {''user'', ''chatbot''}"
    by blast+
  have c: "length ?c = Suc (length (messages sample_db))"
    by code_simp
  have e: "length ?r = Suc (length (messages sample_db))"
    by code_simp
  from a b c e show ?thesis by blast
qed

section \<open>Dataset accumulation\<close>


lemma inner_fold:
  "foldl (\<lambda>a dsId. Set_add a (str dsId)) acc sel = foldl Set_add acc (map str sel)"
  by (simp add: foldl_map)











section \<open>Attached files\<close>






section \<open>The analysis route\<close>

text \<open>The reply handler's rewrite ends every path with the route name, and keeps a path
  that ends with it already.\<close>

lemma endsWith_append: "endsWith (s @ t) t"
  by (simp add: endsWith_def)

lemma analyzePathname_ends: "endsWith (analyzePathname p) ''/analyze''"
  unfolding analyzePathname_def using endsWith_append [of "stripTrailingSlashes p" "''/analyze''"]
  by (simp del: append.simps)

lemma analyzePathname_kept: "endsWith p ''/analyze'' \<Longrightarrow> analyzePathname p = p"
  by (simp add: analyzePathname_def)

lemma analyzePathname_appended:
  "\<not> endsWith p ''/analyze'' \<Longrightarrow> analyzePathname p = stripTrailingSlashes p @ ''/analyze''"
  by (simp add: analyzePathname_def)

text \<open>
  Claim C4 does not hold for the stand-alone client: \<^verbatim>\<open>callFastAPIAnalyze\<close> appends
  the route name without looking (fastApiClient.js lines 28-29; the same expression is
  line 996 of chatController.js), so a base location that already ends with
  \<^verbatim>\<open>/analyze\<close> is called at \<^verbatim>\<open>/analyze/analyze\<close>. Here the engine echoes the path it
  was called at. The reply handler's guarded rewrite keeps \<^verbatim>\<open>/analyze\<close>, yet doubles
  the segment when the configured path is \<^verbatim>\<open>/analyze/\<close>.
\<close>

theorem analyze_segment_doubled:
  "callFastAPIAnalyze (Some ''http://localhost:8000/analyze'') sample_URL_parse sample_String
       (\<lambda>c. Inr (JStr (url_pathname (ac_url c))))
       ''total sales'' (Some ''YSxiCjEsMgo='') (Some ''jan.csv'') None
     = Inr (JStr ''/analyze/analyze'')
   \<and> sample_URL_parse ''http://localhost:8000/analyze''
       = Some \<lparr>url_base = ''http://localhost:8000'', url_pathname = ''/analyze'', url_rest = []\<rparr>
   \<and> normalizedPath ''/analyze'' = ''/analyze/analyze''
   \<and> analyzePathname ''/analyze'' = ''/analyze''
   \<and> analyzePathname ''/analyze/'' = ''/analyze/analyze''"
  by code_simp

section \<open>Upstream errors\<close>

lemma clientMsg_cases:
  assumes "err_response err = Some r"
  shows "truthy (getProp (up_data r) ''detail'') \<Longrightarrow> clientMsg err = getProp (up_data r) ''detail''"
    and "\<not> truthy (getProp (up_data r) ''detail'') \<Longrightarrow> truthy (getProp (up_data r) ''error'')
         \<Longrightarrow> clientMsg err = getProp (up_data r) ''error''"
    and "\<not> truthy (getProp (up_data r) ''detail'') \<Longrightarrow> \<not> truthy (getProp (up_data r) ''error'')
         \<Longrightarrow> clientMsg err
             = JStr (if err_message err \<noteq> [] then err_message err else ''Error calling FastAPI'')"
  using assms by (simp_all add: clientMsg_def js_or_def)

lemma callFastAPIAnalyze_refused:
  assumes "\<forall>c. post c = Inl err"
      and "newURL parse (configuredURL env) \<noteq> None"
      and "fileBuffer \<noteq> None"
      and "endsWith (toLowerCase (case nonEmpty fileName of Some n \<Rightarrow> n | None \<Rightarrow> ''dataset.csv'')) ''.csv''"
  shows "callFastAPIAnalyze env parse str post q fileBuffer fileName sid = Inl (translateError str err)"
  using assms by (auto simp: callFastAPIAnalyze_def Let_def split: option.splits)

text \<open>
  Claim C7, as stated, fails: when the engine refuses with 422 and a detail, the caller of
  the reply operation receives 500 and the fixed text, with neither the detail nor the
  upstream status.
\<close>

theorem upstream_error_counterexample:
  "axios_post refusing_platform sample_form = Inl refusal_422
   \<and> err_response refusal_422
       = Some \<lparr>up_status = 422, up_data = JObj [(''detail'', JStr ''unknown column'')]\<rparr>
   \<and> aiReplyHandler refusing_platform (sample_reply_request 20 member_user) sample_db
       = (\<lparr>res_status = 500, res_json = ErrorBody ''Internal server error.''\<rparr>, sample_db)"
  by code_simp

text \<open>
  Claim C7, amended. When the engine answers with a non-2xx status, the reply operation
  answers 500 with the text \<^verbatim>\<open>Internal server error.\<close> The translation the claim
  describes is that of \<^verbatim>\<open>callFastAPIAnalyze\<close>: once its own checks have passed, the
  error it throws carries the upstream status, and as message the upstream
  \<^verbatim>\<open>detail\<close> when that is truthy, else the upstream \<^verbatim>\<open>error\<close> when that is truthy,
  else the transport message, else \<^verbatim>\<open>Error calling FastAPI\<close>.
\<close>

theorem upstream_error_surfacing:
  assumes "err_response err = Some r"
  shows
    "(prepareReply pf req d = Inr (chat, form) \<and> axios_post pf form = Inl err \<longrightarrow>
        fst (aiReplyHandler pf req d) = respond 500 (ErrorBody ''Internal server error.''))
   \<and> ((\<forall>c. post c = Inl err) \<and> newURL parse (configuredURL env) \<noteq> None \<and> fileBuffer \<noteq> None
        \<and> endsWith (toLowerCase (case nonEmpty fileName of Some n \<Rightarrow> n | None \<Rightarrow> ''dataset.csv''))
             ''.csv'' \<longrightarrow>
        (\<exists>e. callFastAPIAnalyze env parse str post q fileBuffer fileName sid = Inl e
           \<and> e_status e = Some (up_status r)
           \<and> (truthy (getProp (up_data r) ''detail'') \<longrightarrow>
                e_message e = str (getProp (up_data r) ''detail''))
           \<and> (\<not> truthy (getProp (up_data r) ''detail'') \<and> truthy (getProp (up_data r) ''error'') \<longrightarrow>
                e_message e = str (getProp (up_data r) ''error''))
           \<and> (\<not> truthy (getProp (up_data r) ''detail'') \<and> \<not> truthy (getProp (up_data r) ''error'') \<longrightarrow>
                e_message e = str (JStr (if err_message err \<noteq> [] then err_message err
                                         else ''Error calling FastAPI'')))))"
proof (intro conjI impI; (elim conjE)?)
  assume "prepareReply pf req d = Inr (chat, form)" "axios_post pf form = Inl err"
  then show "fst (aiReplyHandler pf req d) = respond 500 (ErrorBody ''Internal server error.'')"
    by (simp add: aiReplyHandler_def)
next
  assume a: "\<forall>c. post c = Inl err" "newURL parse (configuredURL env) \<noteq> None" "fileBuffer \<noteq> None"
    "endsWith (toLowerCase (case nonEmpty fileName of Some n \<Rightarrow> n | None \<Rightarrow> ''dataset.csv'')) ''.csv''"
  have c: "callFastAPIAnalyze env parse str post q fileBuffer fileName sid = Inl (translateError str err)"
    using a by (rule callFastAPIAnalyze_refused)
  have s: "e_status (translateError str err) = Some (up_status r)"
    using assms by (simp add: translateError_def)
  have m: "e_message (translateError str err) = str (clientMsg err)"
    by (simp add: translateError_def)
  show "\<exists>e. callFastAPIAnalyze env parse str post q fileBuffer fileName sid = Inl e
           \<and> e_status e = Some (up_status r)
           \<and> (truthy (getProp (up_data r) ''detail'') \<longrightarrow>
                e_message e = str (getProp (up_data r) ''detail''))
           \<and> (\<not> truthy (getProp (up_data r) ''detail'') \<and> truthy (getProp (up_data r) ''error'') \<longrightarrow>
                e_message e = str (getProp (up_data r) ''error''))
           \<and> (\<not> truthy (getProp (up_data r) ''detail'') \<and> \<not> truthy (getProp (up_data r) ''error'') \<longrightarrow>
                e_message e = str (JStr (if err_message err \<noteq> [] then err_message err
                                         else ''Error calling FastAPI'')))"
    using c s m clientMsg_cases [OF assms] by (intro exI [of _ "translateError str err"]) simp
qed

text \<open>The 422 refusal with detail, through the reply operation and through the client.\<close>

theorem upstream_error_surfacing_witness:
  "fst (aiReplyHandler refusing_platform (sample_reply_request 20 member_user) sample_db)
     = respond 500 (ErrorBody ''Internal server error.'')
   \<and> callFastAPIAnalyze (Some ''http://engine:8000'') sample_URL_parse sample_String
        (\<lambda>c. Inl refusal_422) ''total sales'' (Some ''YSxiCjEsMgo='') (Some ''jan.csv'') None
       = Inl \<lparr>e_message = ''unknown column'', e_status = Some 422, e_code = Some ''ERR_BAD_REQUEST''\<rparr>"
proof -
  let ?r = "\<lparr>up_status = 422, up_data = JObj [(''detail'', JStr ''unknown column'')]\<rparr>"
  have r: "err_response refusal_422 = Some ?r" by (simp add: refusal_422_def)
  note t = upstream_error_surfacing [OF r, where pf = refusing_platform
      and req = "sample_reply_request 20 member_user" and d = sample_db and chat = sample_chat
      and form = sample_form and post = "\<lambda>c. Inl refusal_422" and parse = sample_URL_parse
      and env = "Some ''http://engine:8000''" and fileBuffer = "Some ''YSxiCjEsMgo=''"
      and fileName = "Some ''jan.csv''" and str = sample_String and q = "''total sales''"
      and sid = None]
  have a: "fst (aiReplyHandler refusing_platform (sample_reply_request 20 member_user) sample_db)
     = respond 500 (ErrorBody ''Internal server error.'')"
    using t sample_prepareReply_refusing refusing_post by blast
  have u: "newURL sample_URL_parse (configuredURL (Some ''http://engine:8000'')) \<noteq> None"
    by code_simp
  have n: "endsWith (toLowerCase (case nonEmpty (Some ''jan.csv'') of Some n \<Rightarrow> n | None \<Rightarrow> ''dataset.csv'')) ''.csv''"
    by code_simp
  have dt: "truthy (getProp (up_data ?r) ''detail'')"
    "sample_String (getProp (up_data ?r) ''detail'') = ''unknown column''"
    by (simp_all add: sample_String_def)
  from t u n obtain e where
    e: "callFastAPIAnalyze (Some ''http://engine:8000'') sample_URL_parse sample_String
        (\<lambda>c. Inl refusal_422) ''total sales'' (Some ''YSxiCjEsMgo='') (Some ''jan.csv'') None = Inl e"
      "e_status e = Some (up_status ?r)"
      "truthy (getProp (up_data ?r) ''detail'') \<longrightarrow>
                e_message e = sample_String (getProp (up_data ?r) ''detail'')"
    by auto
  have "e_code e = Some ''ERR_BAD_REQUEST''"
    using e(1) by (auto simp add: callFastAPIAnalyze_refused [OF _ u _ n] translateError_def refusal_422_def)
  with e dt have "e = \<lparr>e_message = ''unknown column'', e_status = Some 422, e_code = Some ''ERR_BAD_REQUEST''\<rparr>"
    by simp
  with e(1) a show ?thesis by simp
qed

end
